theory Spec2Isabelle
  imports Complex_Main "HOL-Library.Sublist"
begin

section \<open>Energy classification (core/audio/analyzer.go)\<close>

text \<open>
  A Go \<open>float64\<close> is a NaN, an infinity or a finite number; a finite one is given by the
  real number it is. Every comparison with a NaN operand is false, as in Go.
\<close>

datatype float64 = NaN | NegInf | Fin real | PosInf

text \<open>
  The constants \<open>0.7\<close>, \<open>0.4\<close> and \<open>0.8\<close> of \<open>classifyEnergy\<close> are compared with
  float64 fields, so Go converts them to float64: each stands for the float64 nearest to
  the decimal, which is not the decimal itself. These are their exact values. (The
  constants 130, 110 and 85 are float64 values as they are.)
\<close>

definition float64_0_7 :: real where
  "float64_0_7 = 3152519739159347 / 4503599627370496"

definition float64_0_4 :: real where
  "float64_0_4 = 3602879701896397 / 9007199254740992"

definition float64_0_8 :: real where
  "float64_0_8 = 3602879701896397 / 4503599627370496"

text \<open>The float64 values of the decimals 0.85, 0.3 and 0.2 of the worked examples.\<close>

definition float64_0_85 :: real where
  "float64_0_85 = 7656119366529843 / 9007199254740992"

definition float64_0_3 :: real where
  "float64_0_3 = 5404319552844595 / 18014398509481984"

definition float64_0_2 :: real where
  "float64_0_2 = 3602879701896397 / 18014398509481984"

text \<open>
  \<open>rounds_to r c\<close>: \<open>c\<close> is a float64 with a 53-bit mantissa \<open>m\<close>, \<open>c = m / 2 ^ k\<close>, and
  lies less than half a unit of its last place from \<open>r\<close>: it is the float64 that the
  decimal \<open>r\<close> is converted to.
\<close>

definition rounds_to :: "real \<Rightarrow> real \<Rightarrow> bool" where
  "rounds_to r c =
    (\<exists>m k :: nat. 2 ^ 52 \<le> m \<and> m < 2 ^ 53 \<and> c = real m / 2 ^ k
       \<and> \<bar>r - c\<bar> * 2 ^ (k + 1) < 1)"

text \<open>
  The finite float64 values: an integer mantissa below \<open>2 ^ 53\<close> in magnitude, scaled by
  a power of two. (The bounds of the exponent play no part near the thresholds.)
\<close>

definition is_float64 :: "real \<Rightarrow> bool" where
  "is_float64 x =
    (\<exists>(m :: int) (k :: nat). \<bar>m\<bar> < 2 ^ 53 \<and> (x = of_int m * 2 ^ k \<or> x = of_int m / 2 ^ k))"

text \<open>\<open>x >= c\<close> for a float64 \<open>x\<close> and a finite float64 \<open>c\<close>.\<close>

fun float64_ge :: "float64 \<Rightarrow> real \<Rightarrow> bool" where
  "float64_ge NaN c = False"
| "float64_ge NegInf c = False"
| "float64_ge (Fin x) c = (x \<ge> c)"
| "float64_ge PosInf c = True"

record AudioMetrics =
  BPM :: float64
  BeatsLoudness :: float64
  AverageLoudness :: float64
  Danceability :: float64

record ScoreBreakdown =
  BPMScore :: int
  BeatsScore :: int
  LoudnessScore :: int
  DanceabilityScore :: int
  TotalScore :: int

text \<open>
  \<open>classifyEnergy\<close>, statement by statement: the breakdown starts as the zero value of the
  struct, each \<open>switch\<close> assigns one field in its first true case (and nothing when no case
  is true), the total is assigned last and the label is chosen from it.
\<close>

definition classifyEnergy :: "AudioMetrics \<Rightarrow> string \<times> ScoreBreakdown" where
  "classifyEnergy metrics =
    (let breakdown = \<lparr>BPMScore = 0, BeatsScore = 0, LoudnessScore = 0,
                       DanceabilityScore = 0, TotalScore = 0\<rparr>;
         breakdown =
           (if float64_ge (BPM metrics) 130 then breakdown\<lparr>BPMScore := 3\<rparr>
            else if float64_ge (BPM metrics) 110 then breakdown\<lparr>BPMScore := 2\<rparr>
            else if float64_ge (BPM metrics) 85 then breakdown\<lparr>BPMScore := 1\<rparr>
            else breakdown);
         breakdown =
           (if float64_ge (BeatsLoudness metrics) float64_0_7 then breakdown\<lparr>BeatsScore := 2\<rparr>
            else if float64_ge (BeatsLoudness metrics) float64_0_4 then breakdown\<lparr>BeatsScore := 1\<rparr>
            else breakdown);
         breakdown =
           (if float64_ge (AverageLoudness metrics) float64_0_8
            then breakdown\<lparr>LoudnessScore := 1\<rparr> else breakdown);
         breakdown =
           (if float64_ge (Danceability metrics) float64_0_7
            then breakdown\<lparr>DanceabilityScore := 1\<rparr> else breakdown);
         breakdown = breakdown\<lparr>TotalScore :=
           BPMScore breakdown + BeatsScore breakdown + LoudnessScore breakdown
             + DanceabilityScore breakdown\<rparr>;
         energy =
           (if TotalScore breakdown \<ge> 5 then ''high''
            else if TotalScore breakdown \<ge> 2 then ''medium''
            else ''low'')
     in (energy, breakdown))"

subsection \<open>The scoring table as the specification words it\<close>

text \<open>
  The table is about float64 metrics: its thresholds 0.7, 0.4 and 0.8 are read as the
  float64 values these decimals denote, as an implementation of the table compares them.
\<close>

definition table_bpm :: "float64 \<Rightarrow> int" where
  "table_bpm x = (if float64_ge x 130 then 3 else if float64_ge x 110 then 2
                  else if float64_ge x 85 then 1 else 0)"

definition table_beats :: "float64 \<Rightarrow> int" where
  "table_beats x = (if float64_ge x float64_0_7 then 2 else if float64_ge x float64_0_4 then 1 else 0)"

definition table_loudness :: "float64 \<Rightarrow> int" where
  "table_loudness x = (if float64_ge x float64_0_8 then 1 else 0)"

definition table_danceability :: "float64 \<Rightarrow> int" where
  "table_danceability x = (if float64_ge x float64_0_7 then 1 else 0)"

definition table_total :: "AudioMetrics \<Rightarrow> int" where
  "table_total m = table_bpm (BPM m) + table_beats (BeatsLoudness m)
                   + table_loudness (AverageLoudness m) + table_danceability (Danceability m)"

definition table_label :: "int \<Rightarrow> string" where
  "table_label t = (if t \<ge> 5 then ''high'' else if t \<ge> 2 then ''medium'' else ''low'')"

section \<open>The collaborators of the handlers\<close>

text \<open>
  The handlers of \<open>server/nativeapi\<close> call the tag library, the data store, the lyrics
  script, the HTTP client, the clock and the request context. Every such call is written
  to a trace, in the order the code makes it, and its outcome is given by the environment
  as a function of the trace so far: the environment is any deterministic collaborator,
  and a statement for every environment covers every run.
\<close>

text \<open>
  \<open>map[string][]string\<close> as \<open>taglib.Read\<close> returns it: the keys with their values. The
  loops over it only ask whether some key matches, so the order of the keys is immaterial.
\<close>

type_synonym tagMap = "(string \<times> string list) list"

record MediaFile =
  ID :: string
  LibraryPath :: string
  Path :: string
  Artist :: string
  Title :: string
  Tags :: "string \<rightharpoonup> string list"
  Lyrics :: string
  UpdatedAt :: nat

record TrackData =
  EnergyVal :: int
  Happiness :: int
  Instrumentalness :: int

datatype event =
    TaglibRead string
  | TaglibWriteTag string string string
  | TaglibWriteLyrics string string string
  | GeniusExec string string
  | HttpGet string string
  | BackoffElapsed nat
  | BackoffCancelled nat
  | DbGet string
  | DbPut string

text \<open>What \<open>client.Do\<close> gives: an error, or a status code with the body as the JSON
  decoder reads it (\<open>None\<close> when decoding fails).\<close>

datatype http_outcome = TransportError | Response nat "TrackData option"

text \<open>
  The type \<open>'l\<close> stands for \<open>model.Lyrics\<close>, declared outside the files at hand, with its
  parser \<open>model.ToLyrics\<close> and its method \<open>IsEmpty\<close>. \<open>AbsolutePath\<close> is the method of
  \<open>model.MediaFile\<close>. An outcome \<open>Some msg\<close> of a write is the error returned, \<open>None\<close> is
  \<open>nil\<close>. \<open>geniusCmd_err\<close> and \<open>getAPIKey\<close> are computed once per process
  (\<open>sync.Once\<close>) and are constants of a run.
\<close>

record 'l env =
  AbsolutePath :: "MediaFile \<Rightarrow> string"
  filepath_Join :: "string \<Rightarrow> string \<Rightarrow> string"
  taglib_Read :: "event list \<Rightarrow> string \<Rightarrow> tagMap option"
  taglib_WriteTag :: "event list \<Rightarrow> string \<Rightarrow> string \<Rightarrow> string \<Rightarrow> string option"
  taglib_WriteLyrics :: "event list \<Rightarrow> string \<Rightarrow> string \<Rightarrow> string \<Rightarrow> string option"
  getAPIKey :: string
  client_Do :: "event list \<Rightarrow> string \<Rightarrow> string \<Rightarrow> http_outcome"
  ctx_Done :: "event list \<Rightarrow> bool"
  geniusCmd_err :: bool
  cmd_Output :: "event list \<Rightarrow> string \<Rightarrow> string \<Rightarrow> string option"
  strings_TrimSpace :: "string \<Rightarrow> string"
  model_ToLyrics :: "string \<Rightarrow> string \<Rightarrow> string + 'l option"
  IsEmpty :: "'l \<Rightarrow> bool"
  json_Marshal :: "'l list \<Rightarrow> string option"
  ds_Get_err :: "event list \<Rightarrow> string \<Rightarrow> bool"
  ds_Put_err :: "event list \<Rightarrow> string \<Rightarrow> bool"
  time_Now :: "event list \<Rightarrow> nat"

record world =
  trace :: "event list"
  rows :: "MediaFile list"

definition emit :: "event \<Rightarrow> world \<Rightarrow> world" where
  "emit e w = w\<lparr>trace := trace w @ [e]\<rparr>"

subsection \<open>Library functions of Go\<close>

text \<open>
  \<open>strings.ToLower\<close> on the bytes of a key: the letters A to Z are mapped, every other
  byte is kept. Go also maps upper-case letters outside ASCII; the keys \<open>taglib.Read\<close>
  delivers were lower-cased by \<open>doPutTag\<close> already, and the three names and the prefix
  compared with are ASCII.
\<close>

definition toLower_byte :: "char \<Rightarrow> char" where
  "toLower_byte c =
    (case map_of (zip ''ABCDEFGHIJKLMNOPQRSTUVWXYZ'' ''abcdefghijklmnopqrstuvwxyz'') c of
       Some l \<Rightarrow> l
     | None \<Rightarrow> c)"

definition strings_ToLower :: "string \<Rightarrow> string" where
  "strings_ToLower s = map toLower_byte s"

definition strings_HasPrefix :: "string \<Rightarrow> string \<Rightarrow> bool" where
  "strings_HasPrefix s p = prefix p s"

text \<open>\<open>fmt.Sprintf("%d", n)\<close>: the decimal digits, with a minus sign below zero.\<close>

function nat_digits :: "nat \<Rightarrow> string" where
  "nat_digits n =
    (if n < 10 then [''0123456789'' ! n]
     else nat_digits (n div 10) @ [''0123456789'' ! (n mod 10)])"
  by pat_completeness auto
termination
  by (relation "measure id") auto

declare nat_digits.simps [simp del]

definition Sprintf_d :: "int \<Rightarrow> string" where
  "Sprintf_d n = (if n < 0 then CHR ''-'' # nat_digits (nat (- n)) else nat_digits (nat n))"

subsection \<open>The data store\<close>

text \<open>
  Modelled from the spec: the repository behind \<open>ds.MediaFile(ctx)\<close> is not among the
  files at hand. The specification has it hold one row per media file, found by its
  identifier; the pipeline updates existing rows. \<open>Get\<close> returns the row with the
  identifier or \<open>model.ErrNotFound\<close>, \<open>Put\<close> replaces the row with the identifier of the
  record; either may fail with another error, as the environment says.
\<close>

datatype ds_error = ErrNotFound | ErrOther

fun put_row :: "MediaFile \<Rightarrow> MediaFile list \<Rightarrow> MediaFile list" where
  "put_row mf [] = [mf]"
| "put_row mf (r # rs) = (if ID r = ID mf then mf # rs else r # put_row mf rs)"

definition ds_Get :: "'l env \<Rightarrow> string \<Rightarrow> world \<Rightarrow> (ds_error + MediaFile) \<times> world" where
  "ds_Get env ident w =
    (let w1 = emit (DbGet ident) w in
     if ds_Get_err env (trace w) ident then (Inl ErrOther, w1)
     else (case find (\<lambda>r. ID r = ident) (rows w) of
             None \<Rightarrow> (Inl ErrNotFound, w1)
           | Some mf \<Rightarrow> (Inr mf, w1)))"

definition ds_Put :: "'l env \<Rightarrow> MediaFile \<Rightarrow> world \<Rightarrow> bool \<times> world" where
  "ds_Put env mf w =
    (let w1 = emit (DbPut (ID mf)) w in
     if ds_Put_err env (trace w) (ID mf) then (False, w1)
     else (True, w1\<lparr>rows := put_row mf (rows w1)\<rparr>))"

subsection \<open>The tag library, as called\<close>

definition Read :: "'l env \<Rightarrow> string \<Rightarrow> world \<Rightarrow> tagMap option \<times> world" where
  "Read env filename w = (taglib_Read env (trace w) filename, emit (TaglibRead filename) w)"

definition WriteTag :: "'l env \<Rightarrow> string \<Rightarrow> string \<Rightarrow> string \<Rightarrow> world \<Rightarrow> string option \<times> world" where
  "WriteTag env filename tagName tagValue w =
    (taglib_WriteTag env (trace w) filename tagName tagValue,
     emit (TaglibWriteTag filename tagName tagValue) w)"

definition WriteLyrics :: "'l env \<Rightarrow> string \<Rightarrow> string \<Rightarrow> string \<Rightarrow> world \<Rightarrow> string option \<times> world" where
  "WriteLyrics env filename lang text w =
    (taglib_WriteLyrics env (trace w) filename lang text,
     emit (TaglibWriteLyrics filename lang text) w)"

section \<open>The track-metrics client (core/trackanalysis)\<close>

text \<open>
  The errors \<open>FetchTrackData\<close> returns: its three named errors, \<open>ctx.Err()\<close>
  (\<open>ErrContext\<close>), and the \<open>fmt.Errorf\<close> ones for a missing artist or title, a failed
  request, another status code and an undecodable body. \<open>PanicNilResponse\<close> stands for
  the use of \<open>resp\<close> while it is still \<open>nil\<close>.
\<close>

datatype fetch_error =
    ErrTrackAnalysisNotAvailable
  | ErrArtistTitleRequired
  | ErrContext
  | ErrRequestFailed
  | ErrRateLimited
  | ErrTrackNotFound
  | ErrStatus nat
  | ErrDecode
  | PanicNilResponse

definition maxRetries :: nat where
  "maxRetries = 6"

text \<open>
  The \<open>select\<close> of the retry: \<open>time.After(backoff)\<close> with \<open>backoff = (1 << attempt)\<close>
  seconds, against \<open>ctx.Done()\<close>. The result is \<open>True\<close> when the timer fired, \<open>False\<close>
  when the context was done first.
\<close>

definition backoffWait :: "'l env \<Rightarrow> nat \<Rightarrow> world \<Rightarrow> bool \<times> world" where
  "backoffWait env attempt w =
    (let backoff = 2 ^ attempt in
     if ctx_Done env (trace w) then (False, emit (BackoffCancelled backoff) w)
     else (True, emit (BackoffElapsed backoff) w))"

text \<open>
  The loop \<open>for attempt := 0; attempt < maxRetries; attempt++\<close> of \<open>FetchTrackData\<close>,
  with the variable \<open>resp\<close> it assigns. \<open>Inl\<close> is a \<open>return nil, err\<close> inside the loop,
  \<open>Inr\<close> is the value of \<open>resp\<close> when the loop is left by \<open>break\<close> or by its condition.
  (\<open>url.Parse\<close> of the constant URL and \<open>http.NewRequestWithContext\<close> with the method GET
  do not fail.)
\<close>

function retryLoop ::
  "'l env \<Rightarrow> string \<Rightarrow> string \<Rightarrow> nat \<Rightarrow> (nat \<times> TrackData option) option \<Rightarrow> world
    \<Rightarrow> (fetch_error + (nat \<times> TrackData option) option) \<times> world" where
  "retryLoop env artist title attempt resp w =
    (if attempt < maxRetries then
       (case (if attempt > 0 then backoffWait env attempt w else (True, w)) of
          (False, w1) \<Rightarrow> (Inl ErrContext, w1)
        | (True, w1) \<Rightarrow>
            (case client_Do env (trace w1) artist title of
               TransportError \<Rightarrow> (Inl ErrRequestFailed, emit (HttpGet artist title) w1)
             | Response code body \<Rightarrow>
                 (let w2 = emit (HttpGet artist title) w1 in
                  if code \<noteq> 429 then (Inr (Some (code, body)), w2)
                  else if attempt = maxRetries - 1 then (Inl ErrRateLimited, w2)
                  else retryLoop env artist title (attempt + 1) (Some (code, body)) w2)))
     else (Inr resp, w))"
  by pat_completeness auto
termination
  by (relation "measure (\<lambda>(env, artist, title, attempt, resp, w). maxRetries - attempt)") auto

declare retryLoop.simps [simp del]

definition FetchTrackData ::
  "'l env \<Rightarrow> string \<Rightarrow> string \<Rightarrow> world \<Rightarrow> (fetch_error + TrackData) \<times> world" where
  "FetchTrackData env artist title w =
    (let key = getAPIKey env in
     if key = [] then (Inl ErrTrackAnalysisNotAvailable, w)
     else if artist = [] \<or> title = [] then (Inl ErrArtistTitleRequired, w)
     else (case retryLoop env artist title 0 None w of
             (Inl e, w1) \<Rightarrow> (Inl e, w1)
           | (Inr None, w1) \<Rightarrow> (Inl PanicNilResponse, w1)
           | (Inr (Some (code, body)), w1) \<Rightarrow>
               if code = 404 then (Inl ErrTrackNotFound, w1)
               else if code \<noteq> 200 then (Inl (ErrStatus code), w1)
               else (case body of
                       None \<Rightarrow> (Inl ErrDecode, w1)
                     | Some d \<Rightarrow> (Inr d, w1))))"

section \<open>The track-metrics batch (server/nativeapi/trackdata.go)\<close>

record fetchResponse =
  Total :: nat
  Fetched :: nat
  Failed :: nat
  Skipped :: nat

text \<open>\<open>fetchTrackDataResponse\<close> and \<open>fetchLyricsResponse\<close> declare the same four fields
  (Go \<open>int\<close> counters that only count up from 0 to at most \<open>len(songs)\<close>).\<close>

type_synonym fetchTrackDataResponse = fetchResponse
type_synonym fetchLyricsResponse = fetchResponse

record songResult =
  fetched :: bool
  failed :: bool
  skipped :: bool

definition writeTrackDataTags ::
  "'l env \<Rightarrow> string \<Rightarrow> TrackData \<Rightarrow> world \<Rightarrow> string option \<times> world" where
  "writeTrackDataTags env filePath data w =
    (case WriteTag env filePath ''ENERGYVAL'' (Sprintf_d (EnergyVal data)) w of
       (Some err, w1) \<Rightarrow> (Some (''failed to write ENERGYVAL tag: '' @ err), w1)
     | (None, w1) \<Rightarrow>
         (case WriteTag env filePath ''HAPPINESS'' (Sprintf_d (Happiness data)) w1 of
            (Some err, w2) \<Rightarrow> (Some (''failed to write HAPPINESS tag: '' @ err), w2)
          | (None, w2) \<Rightarrow>
              (case WriteTag env filePath ''INSTRUMENTALNESS''
                      (Sprintf_d (Instrumentalness data)) w2 of
                 (Some err, w3) \<Rightarrow> (Some (''failed to write INSTRUMENTALNESS tag: '' @ err), w3)
               | (None, w3) \<Rightarrow> (None, w3))))"

text \<open>The loop \<open>for key := range tags\<close> of \<open>processSong\<close>, over the keys of the map.\<close>

fun hasTrackData :: "string list \<Rightarrow> bool" where
  "hasTrackData [] = False"
| "hasTrackData (key # keys) =
    (let keyLower = strings_ToLower key in
     if keyLower = ''energyval'' \<or> keyLower = ''happiness'' \<or> keyLower = ''instrumentalness''
     then True
     else hasTrackData keys)"

text \<open>\<open>processSong\<close> from the comment "Fetch track data from API" on.\<close>

definition processSong_fetch :: "'l env \<Rightarrow> MediaFile \<Rightarrow> string \<Rightarrow> world \<Rightarrow> songResult \<times> world" where
  "processSong_fetch env song filePath w =
    (case FetchTrackData env (Artist song) (Title song) w of
       (Inl err, w1) \<Rightarrow> (\<lparr>fetched = False, failed = True, skipped = False\<rparr>, w1)
     | (Inr data, w1) \<Rightarrow>
         (case writeTrackDataTags env filePath data w1 of
            (Some err, w2) \<Rightarrow> (\<lparr>fetched = False, failed = True, skipped = False\<rparr>, w2)
          | (None, w2) \<Rightarrow> (\<lparr>fetched = True, failed = False, skipped = False\<rparr>, w2)))"

definition processSong :: "'l env \<Rightarrow> MediaFile \<Rightarrow> world \<Rightarrow> songResult \<times> world" where
  "processSong env song w =
    (let filePath = AbsolutePath env song in
     case Read env filePath w of
       (Some tags, w1) \<Rightarrow>
         if hasTrackData (map fst tags)
         then (\<lparr>fetched = False, failed = False, skipped = True\<rparr>, w1)
         else processSong_fetch env song filePath w1
     | (None, w1) \<Rightarrow> processSong_fetch env song filePath w1)"

text \<open>The loop of \<open>fetchTrackDataForSongs\<close> with its three counters.\<close>

fun fetchTrackData_loop ::
  "'l env \<Rightarrow> MediaFile list \<Rightarrow> nat \<times> nat \<times> nat \<Rightarrow> world \<Rightarrow> (nat \<times> nat \<times> nat) \<times> world" where
  "fetchTrackData_loop env [] counters w = (counters, w)"
| "fetchTrackData_loop env (song # songs) (nfetched, nfailed, nskipped) w =
    (case processSong env song w of
       (result, w1) \<Rightarrow>
         if fetched result then fetchTrackData_loop env songs (nfetched + 1, nfailed, nskipped) w1
         else if failed result then fetchTrackData_loop env songs (nfetched, nfailed + 1, nskipped) w1
         else if skipped result then fetchTrackData_loop env songs (nfetched, nfailed, nskipped + 1) w1
         else fetchTrackData_loop env songs (nfetched, nfailed, nskipped) w1)"

definition fetchTrackDataForSongs ::
  "'l env \<Rightarrow> MediaFile list \<Rightarrow> world \<Rightarrow> fetchTrackDataResponse \<times> world" where
  "fetchTrackDataForSongs env songs w =
    (let total = length songs in
     case fetchTrackData_loop env songs (0, 0, 0) w of
       ((nfetched, nfailed, nskipped), w1) \<Rightarrow>
         (\<lparr>Total = total, Fetched = nfetched, Failed = nfailed, Skipped = nskipped\<rparr>, w1))"

section \<open>The lyrics provider (core/lyrics)\<close>

text \<open>
  \<open>saveLyricsToFile\<close>: one call of \<open>taglib.WriteLyrics\<close> with the language code "xxx";
  its error is returned.
\<close>

definition saveLyricsToFile :: "'l env \<Rightarrow> MediaFile \<Rightarrow> string \<Rightarrow> world \<Rightarrow> string option \<times> world" where
  "saveLyricsToFile env mf lyricsText w =
    (let path = AbsolutePath env mf in WriteLyrics env path ''xxx'' lyricsText w)"

text \<open>
  \<open>fromGenius\<close>: \<open>Inl\<close> is a returned error, \<open>Inr\<close> the returned \<open>model.LyricList\<close>
  (\<open>nil\<close> is the empty list). The error of \<open>saveLyricsToFile\<close> is logged and dropped.
\<close>

definition fromGenius :: "'l env \<Rightarrow> MediaFile \<Rightarrow> world \<Rightarrow> (string + 'l list) \<times> world" where
  "fromGenius env mf w =
    (if geniusCmd_err env then (Inr [], w)
     else
       (let artist = Artist mf; title = Title mf in
        if artist = [] \<or> title = [] then (Inr [], w)
        else
          (let w1 = emit (GeniusExec artist title) w in
           case cmd_Output env (trace w) artist title of
             None \<Rightarrow> (Inr [], w1)
           | Some output \<Rightarrow>
               (let lyricsText = strings_TrimSpace env output in
                if lyricsText = [] then (Inr [], w1)
                else
                  (case model_ToLyrics env ''xxx'' lyricsText of
                     Inl err \<Rightarrow> (Inl err, w1)
                   | Inr None \<Rightarrow> (Inr [], w1)
                   | Inr (Some lyrics) \<Rightarrow>
                       if IsEmpty env lyrics then (Inr [], w1)
                       else
                         (case saveLyricsToFile env mf lyricsText w1 of
                            (err, w2) \<Rightarrow> (Inr [lyrics], w2)))))))"

definition FetchFromGenius :: "'l env \<Rightarrow> MediaFile \<Rightarrow> world \<Rightarrow> (string + 'l list) \<times> world" where
  "FetchFromGenius env mf w = fromGenius env mf w"

section \<open>The lyrics batch (server/nativeapi/lyrics.go)\<close>

text \<open>The loop \<open>for key := range tags\<close> of \<open>fetchLyricsForSongs\<close>, over the keys of the map.\<close>

fun hasCorrectlyStoredLyrics :: "string list \<Rightarrow> bool" where
  "hasCorrectlyStoredLyrics [] = False"
| "hasCorrectlyStoredLyrics (key # keys) =
    (let keyLower = strings_ToLower key in
     if strings_HasPrefix keyLower ''lyrics:'' then True
     else hasCorrectlyStoredLyrics keys)"

text \<open>The body of the loop over the songs, from the comment "Fetch lyrics from Genius" on.\<close>

definition fetchLyrics_fetch ::
  "'l env \<Rightarrow> MediaFile \<Rightarrow> fetchLyricsResponse \<Rightarrow> world \<Rightarrow> fetchLyricsResponse \<times> world" where
  "fetchLyrics_fetch env song resp w =
    (case FetchFromGenius env song w of
       (Inl err, w1) \<Rightarrow> (resp\<lparr>Failed := Failed resp + 1\<rparr>, w1)
     | (Inr lyricsList, w1) \<Rightarrow>
         if length lyricsList = 0 then (resp\<lparr>Failed := Failed resp + 1\<rparr>, w1)
         else
           (case json_Marshal env lyricsList of
              None \<Rightarrow> (resp\<lparr>Failed := Failed resp + 1\<rparr>, w1)
            | Some lyricsJSON \<Rightarrow>
                (let song = song\<lparr>Lyrics := lyricsJSON\<rparr> in
                 case ds_Put env song w1 of
                   (False, w2) \<Rightarrow> (resp\<lparr>Failed := Failed resp + 1\<rparr>, w2)
                 | (True, w2) \<Rightarrow> (resp\<lparr>Fetched := Fetched resp + 1\<rparr>, w2))))"

text \<open>The whole body of the loop over the songs.\<close>

definition fetchLyrics_song ::
  "'l env \<Rightarrow> MediaFile \<Rightarrow> fetchLyricsResponse \<Rightarrow> world \<Rightarrow> fetchLyricsResponse \<times> world" where
  "fetchLyrics_song env song resp w =
    (let filePath = AbsolutePath env song in
     case Read env filePath w of
       (tags, w1) \<Rightarrow>
         (let hasCorrectlyStored =
                (case tags of
                   Some m \<Rightarrow> hasCorrectlyStoredLyrics (map fst m)
                 | None \<Rightarrow> False) in
          if hasCorrectlyStored then (resp\<lparr>Skipped := Skipped resp + 1\<rparr>, w1)
          else fetchLyrics_fetch env song resp w1))"

fun fetchLyrics_loop ::
  "'l env \<Rightarrow> MediaFile list \<Rightarrow> fetchLyricsResponse \<Rightarrow> world \<Rightarrow> fetchLyricsResponse \<times> world" where
  "fetchLyrics_loop env [] resp w = (resp, w)"
| "fetchLyrics_loop env (song # songs) resp w =
    (case fetchLyrics_song env song resp w of
       (resp1, w1) \<Rightarrow> fetchLyrics_loop env songs resp1 w1)"

definition fetchLyricsForSongs ::
  "'l env \<Rightarrow> MediaFile list \<Rightarrow> world \<Rightarrow> fetchLyricsResponse \<times> world" where
  "fetchLyricsForSongs env songs w =
    (let resp = \<lparr>Total = length songs, Fetched = 0, Failed = 0, Skipped = 0\<rparr> in
     fetchLyrics_loop env songs resp w)"

section \<open>Setting the energy and mood tags (server/nativeapi/song_tag.go)\<close>

definition validEnergyValues :: "string list" where
  "validEnergyValues = ['''', ''low'', ''medium'', ''high'']"

definition validMoodValues :: "string list" where
  "validMoodValues = ['''', ''negative'', ''neutral'', ''positive'']"

text \<open>\<open>slices.Contains\<close>.\<close>

fun slices_Contains :: "string list \<Rightarrow> string \<Rightarrow> bool" where
  "slices_Contains [] v = False"
| "slices_Contains (x # xs) v = (if x = v then True else slices_Contains xs v)"

text \<open>
  What a handler writes: \<open>http.Error\<close> with a status and a message, or the JSON of the
  response struct (identifier and value) with status 200.
\<close>

datatype response =
    HttpError nat string
  | SetEnergyResponse string string
  | SetMoodResponse string string

definition quoted :: "string \<Rightarrow> string" where
  "quoted s = [CHR 0x27] @ s @ [CHR 0x27]"

text \<open>
  The handlers take the identifier of the URL and the request body as the JSON decoder
  reads it: \<open>None\<close> when decoding fails, else the field \<open>Value\<close> of the request.
  \<open>mf\<close> is the record \<open>Get\<close> returned; a \<open>nil\<close> tag map is made an empty one before
  the update, and both are the empty map here. \<open>UpdatedAt\<close> is set from the clock.
\<close>

definition setEnergy :: "'l env \<Rightarrow> string \<Rightarrow> string option \<Rightarrow> world \<Rightarrow> response \<times> world" where
  "setEnergy env ident body w =
    (case body of
       None \<Rightarrow> (HttpError 400 ''Invalid request body'', w)
     | Some val \<Rightarrow>
         if \<not> slices_Contains validEnergyValues val
         then (HttpError 400 (''Invalid energy value. Must be one of: '' @ quoted [] @ '', ''
                 @ quoted ''low'' @ '', '' @ quoted ''medium'' @ '', '' @ quoted ''high''), w)
         else
           (case ds_Get env ident w of
              (Inl ErrNotFound, w1) \<Rightarrow> (HttpError 404 ''Song not found'', w1)
            | (Inl ErrOther, w1) \<Rightarrow> (HttpError 500 ''Internal server error'', w1)
            | (Inr mf, w1) \<Rightarrow>
                (let fullPath = filepath_Join env (LibraryPath mf) (Path mf) in
                 case WriteTag env fullPath ''ENERGY'' val w1 of
                   (Some err, w2) \<Rightarrow>
                     (HttpError 500 (''Failed to write tag to file: '' @ err), w2)
                 | (None, w2) \<Rightarrow>
                     (let mf = (if val = [] then mf\<lparr>Tags := (Tags mf)(''energy'' := None)\<rparr>
                                else mf\<lparr>Tags := (Tags mf)(''energy'' \<mapsto> [val])\<rparr>);
                          mf = mf\<lparr>UpdatedAt := time_Now env (trace w2)\<rparr> in
                      case ds_Put env mf w2 of
                        (False, w3) \<Rightarrow> (HttpError 500 ''Failed to update database'', w3)
                      | (True, w3) \<Rightarrow> (SetEnergyResponse ident val, w3)))))"

definition setMood :: "'l env \<Rightarrow> string \<Rightarrow> string option \<Rightarrow> world \<Rightarrow> response \<times> world" where
  "setMood env ident body w =
    (case body of
       None \<Rightarrow> (HttpError 400 ''Invalid request body'', w)
     | Some val \<Rightarrow>
         if \<not> slices_Contains validMoodValues val
         then (HttpError 400 (''Invalid mood value. Must be one of: '' @ quoted [] @ '', ''
                 @ quoted ''negative'' @ '', '' @ quoted ''neutral'' @ '', ''
                 @ quoted ''positive''), w)
         else
           (case ds_Get env ident w of
              (Inl ErrNotFound, w1) \<Rightarrow> (HttpError 404 ''Song not found'', w1)
            | (Inl ErrOther, w1) \<Rightarrow> (HttpError 500 ''Internal server error'', w1)
            | (Inr mf, w1) \<Rightarrow>
                (let fullPath = filepath_Join env (LibraryPath mf) (Path mf) in
                 case WriteTag env fullPath ''MOOD'' val w1 of
                   (Some err, w2) \<Rightarrow>
                     (HttpError 500 (''Failed to write tag to file: '' @ err), w2)
                 | (None, w2) \<Rightarrow>
                     (let mf = (if val = [] then mf\<lparr>Tags := (Tags mf)(''mood'' := None)\<rparr>
                                else mf\<lparr>Tags := (Tags mf)(''mood'' \<mapsto> [val])\<rparr>);
                          mf = mf\<lparr>UpdatedAt := time_Now env (trace w2)\<rparr> in
                      case ds_Put env mf w2 of
                        (False, w3) \<Rightarrow> (HttpError 500 ''Failed to update database'', w3)
                      | (True, w3) \<Rightarrow> (SetMoodResponse ident val, w3)))))"

section \<open>Traces of the retry loop\<close>

text \<open>
  The calls of the first \<open>k\<close> attempts of the retry loop when none of them is cut short:
  a request, and before every attempt but the first a completed wait of \<open>2 ^ attempt\<close>
  seconds.
\<close>

fun attemptsTrace :: "string \<Rightarrow> string \<Rightarrow> nat \<Rightarrow> event list" where
  "attemptsTrace artist title 0 = []"
| "attemptsTrace artist title (Suc k) =
    attemptsTrace artist title k
    @ (if k > 0 then [BackoffElapsed (2 ^ k)] else [])
    @ [HttpGet artist title]"

section \<open>A concrete environment for the examples\<close>

text \<open>
  Every collaborator succeeds: files carry no tags, the metrics service answers 200, the
  lyrics script prints two words, writes and the data store do not fail.
\<close>

definition env0 :: "string env" where
  "env0 =
    \<lparr>AbsolutePath = (\<lambda>mf. LibraryPath mf @ ''/'' @ Path mf),
     filepath_Join = (\<lambda>a b. a @ ''/'' @ b),
     taglib_Read = (\<lambda>h p. Some []),
     taglib_WriteTag = (\<lambda>h p n v. None),
     taglib_WriteLyrics = (\<lambda>h p l t. None),
     getAPIKey = ''key'',
     client_Do = (\<lambda>h a t. Response 200
        (Some \<lparr>EnergyVal = 72, Happiness = 40, Instrumentalness = 3\<rparr>)),
     ctx_Done = (\<lambda>h. False),
     geniusCmd_err = False,
     cmd_Output = (\<lambda>h a t. Some ''la la''),
     strings_TrimSpace = (\<lambda>s. s),
     model_ToLyrics = (\<lambda>lang text. Inr (Some text)),
     IsEmpty = (\<lambda>l. l = []),
     json_Marshal = (\<lambda>ls. Some (concat ls)),
     ds_Get_err = (\<lambda>h i. False),
     ds_Put_err = (\<lambda>h i. False),
     time_Now = (\<lambda>h. 1000 + length h)\<rparr>"

definition song0 :: MediaFile where
  "song0 =
    \<lparr>ID = ''s1'', LibraryPath = ''/music'', Path = ''a.mp3'', Artist = ''Artist'',
     Title = ''Title'', Tags = Map.empty, Lyrics = [], UpdatedAt = 7\<rparr>"

definition world0 :: world where
  "world0 = \<lparr>trace = [], rows = [song0]\<rparr>"

section \<open>Environments under rate limiting\<close>

text \<open>The durations of the completed waits of a trace, in order.\<close>

fun waits :: "event list \<Rightarrow> nat list" where
  "waits [] = []"
| "waits (BackoffElapsed n # es) = n # waits es"
| "waits (e # es) = waits es"

text \<open>The metrics service answers 429 to every request.\<close>

definition env429 :: "string env" where
  "env429 = env0\<lparr>client_Do := (\<lambda>h a t. Response 429 None)\<rparr>"

text \<open>The same, and the context is done once three calls have been made.\<close>

definition env429_cancel :: "string env" where
  "env429_cancel = env429\<lparr>ctx_Done := (\<lambda>h. length h \<ge> 3)\<rparr>"

section \<open>Further examples: a read-only file, a second song\<close>

definition env_readonly :: "string env" where
  "env_readonly = env0\<lparr>taglib_WriteTag := (\<lambda>h p n v. Some (''file is read-only: '' @ p))\<rparr>"

definition song1 :: MediaFile where
  "song1 = song0\<lparr>ID := ''s2'', Path := ''b.flac'',
      Tags := [''mood'' \<mapsto> [''positive''], ''energy'' \<mapsto> [''low'']]\<rparr>"

definition world1 :: world where
  "world1 = \<lparr>trace = [], rows = [song0, song1]\<rparr>"

section \<open>The skip rule as specified; further examples\<close>

text \<open>
  The specification's wording of the skip rule of the track-metrics flow: the tag block
  carries all three metric tags.
\<close>

definition carriesAllMetricTags :: "string list \<Rightarrow> bool" where
  "carriesAllMetricTags keys =
    (''energyval'' \<in> set (map strings_ToLower keys)
     \<and> ''happiness'' \<in> set (map strings_ToLower keys)
     \<and> ''instrumentalness'' \<in> set (map strings_ToLower keys))"

text \<open>The identifiers of the \<open>Put\<close> calls of a trace, in order.\<close>

fun dbPuts :: "event list \<Rightarrow> string list" where
  "dbPuts [] = []"
| "dbPuts (DbPut i # es) = i # dbPuts es"
| "dbPuts (e # es) = dbPuts es"

text \<open>A file that carries one of the three metric tags only.\<close>

definition env_partial :: "string env" where
  "env_partial = env0\<lparr>taglib_Read := (\<lambda>h p. Some [(''energyval'', [''72''])])\<rparr>"

text \<open>Files whose tags cannot be read.\<close>

definition env_unreadable :: "string env" where
  "env_unreadable = env0\<lparr>taglib_Read := (\<lambda>h p. None)\<rparr>"

text \<open>Files to which lyrics cannot be written.\<close>

definition env_lyrics_readonly :: "string env" where
  "env_lyrics_readonly = env0\<lparr>taglib_WriteLyrics := (\<lambda>h p l t. Some (''file is read-only: '' @ p))\<rparr>"

text \<open>A file that carries lyrics under the key of the language "eng".\<close>

definition env_has_lyrics :: "string env" where
  "env_has_lyrics = env0\<lparr>taglib_Read := (\<lambda>h p. Some [(''title'', [''Title'']), (''lyrics:eng'', [''la la''])])\<rparr>"

definition resp0 :: fetchLyricsResponse where
  "resp0 = \<lparr>Total = 1, Fetched = 0, Failed = 0, Skipped = 0\<rparr>"

text \<open>Files to which the tag of one name cannot be written.\<close>

definition env_write_fails :: "string \<Rightarrow> string env" where
  "env_write_fails name =
    env0\<lparr>taglib_WriteTag :=
      (\<lambda>h p n v. if n = name then Some (''failed to save file: '' @ p) else None)\<rparr>"

text \<open>Unreadable files, and a metrics service that does not know the track.\<close>

definition env_unreadable_404 :: "string env" where
  "env_unreadable_404 = env_unreadable\<lparr>client_Do := (\<lambda>h a t. Response 404 None)\<rparr>"

section \<open>The keys of the tag map (adapters/taglib)\<close>

text \<open>
  How \<open>taglib.Read\<close> fills its map (adapters/taglib): \<open>doPutTag\<close> appends the trimmed
  value under the lower-cased key, \<open>m[k] = append(m[k], v)\<close>, and ignores an empty key;
  \<open>goPutLyrics\<close> files lyrics under "lyrics:" followed by the language code. (For a
  name with upper-case letters outside ASCII Go lower-cases those too; the prefix
  "lyrics:" is the same either way.)
\<close>

fun append_value :: "string \<Rightarrow> string \<Rightarrow> tagMap \<Rightarrow> tagMap" where
  "append_value k v [] = [(k, [v])]"
| "append_value k v ((k', vs) # m) =
    (if k' = k then (k', vs @ [v]) # m else (k', vs) # append_value k v m)"

definition doPutTag :: "(string \<Rightarrow> string) \<Rightarrow> string \<Rightarrow> string \<Rightarrow> tagMap \<Rightarrow> tagMap" where
  "doPutTag TrimSpace key val m =
    (if key = [] then m
     else (let k = strings_ToLower key; v = TrimSpace val in append_value k v m))"

definition goPutLyrics :: "(string \<Rightarrow> string) \<Rightarrow> string \<Rightarrow> string \<Rightarrow> tagMap \<Rightarrow> tagMap" where
  "goPutLyrics TrimSpace lang val m = doPutTag TrimSpace (''lyrics:'' @ lang) val m"

section \<open>Energy classification: results\<close>

subsection \<open>The float64 constants\<close>

lemma rounds_toI:
  "2 ^ 52 \<le> m \<Longrightarrow> m < 2 ^ 53 \<Longrightarrow> c = real m / 2 ^ k \<Longrightarrow> \<bar>r - c\<bar> * 2 ^ (k + 1) < 1
   \<Longrightarrow> rounds_to r c"
  unfolding rounds_to_def by blast

lemma float64_constants:
  "rounds_to (7 / 10) float64_0_7 \<and> rounds_to (4 / 10) float64_0_4
   \<and> rounds_to (8 / 10) float64_0_8 \<and> rounds_to (85 / 100) float64_0_85
   \<and> rounds_to (3 / 10) float64_0_3 \<and> rounds_to (2 / 10) float64_0_2"
proof (intro conjI)
  show "rounds_to (7 / 10) float64_0_7"
    by (rule rounds_toI [of 6305039478318694 _ 53]) (simp_all add: float64_0_7_def)
  show "rounds_to (4 / 10) float64_0_4"
    by (rule rounds_toI [of 7205759403792794 _ 54]) (simp_all add: float64_0_4_def)
  show "rounds_to (8 / 10) float64_0_8"
    by (rule rounds_toI [of 7205759403792794 _ 53]) (simp_all add: float64_0_8_def)
  show "rounds_to (85 / 100) float64_0_85"
    by (rule rounds_toI [of 7656119366529843 _ 53]) (simp_all add: float64_0_85_def)
  show "rounds_to (3 / 10) float64_0_3"
    by (rule rounds_toI [of 5404319552844595 _ 54]) (simp_all add: float64_0_3_def)
  show "rounds_to (2 / 10) float64_0_2"
    by (rule rounds_toI [of 7205759403792794 _ 55]) (simp_all add: float64_0_2_def)
qed

lemma float64_constants_order:
  "float64_0_7 < 7 / 10 \<and> 4 / 10 < float64_0_4 \<and> 8 / 10 < float64_0_8"
  by (simp add: float64_0_7_def float64_0_4_def float64_0_8_def)

text \<open>
  Between two neighbouring float64 values there is no float64. Hence, on float64 values,
  comparing with the float64 constant is comparing with the decimal, but for the one
  value \<open>float64_0_7\<close> itself, which lies just below 7/10 and is the value written 0.7.
\<close>

lemma no_int_between:
  fixes N M :: int
  assumes "real_of_int N < real_of_int M" "real_of_int M < real_of_int N + 1"
  shows False
proof -
  from assms(1) have "N < M" by simp
  moreover from assms(2) have "real_of_int M < real_of_int (N + 1)" by simp
  then have "M < N + 1" by (simp only: of_int_less_iff)
  ultimately show False by simp
qed

lemma no_float64_between:
  assumes f: "is_float64 x"
    and lo: "real_of_int N / 2 ^ K < x" and hi: "x < (real_of_int N + 1) / 2 ^ K"
    and N: "2 ^ 52 \<le> N"
  shows False
proof -
  from f obtain m :: int and k :: nat where m: "\<bar>m\<bar> < 2 ^ 53"
    and x: "x = of_int m * 2 ^ k \<or> x = of_int m / 2 ^ k"
    unfolding is_float64_def by blast
  have p: "(0::real) < 2 ^ K" by simp
  from lo have lo': "real_of_int N < x * 2 ^ K"
    by (simp add: pos_divide_less_eq)
  from hi have hi': "x * 2 ^ K < real_of_int N + 1"
    by (simp add: pos_less_divide_eq)
  show False
  proof (cases "x = of_int m * 2 ^ k \<or> (x = of_int m / 2 ^ k \<and> k \<le> K)")
    case True
    then have "\<exists>M :: int. x * 2 ^ K = of_int M"
    proof
      assume "x = of_int m * 2 ^ k"
      then have "x * 2 ^ K = of_int (m * 2 ^ (k + K))"
        by (simp add: power_add)
      then show ?thesis by blast
    next
      assume a: "x = of_int m / 2 ^ k \<and> k \<le> K"
      then have "(2::real) ^ K = 2 ^ k * 2 ^ (K - k)"
        by (simp add: power_add [symmetric])
      with a have "x * 2 ^ K = of_int (m * 2 ^ (K - k))"
        by simp
      then show ?thesis by blast
    qed
    then obtain M :: int where "x * 2 ^ K = of_int M" by blast
    with lo' hi' show False using no_int_between [of N M] by simp
  next
    case False
    with x have xk: "x = of_int m / 2 ^ k" and k: "K < k" by auto
    from m have "real_of_int m < 2 ^ 53"
      by (metis abs_less_iff of_int_less_iff of_int_numeral of_int_power)
    then have "x < 2 ^ 53 / 2 ^ k"
      unfolding xk by (simp add: divide_strict_right_mono)
    also from k have "(2::real) ^ 53 / 2 ^ k \<le> 2 ^ 53 / 2 ^ (K + 1)"
      by (intro divide_left_mono power_increasing) simp_all
    also have "\<dots> = 2 ^ 52 / 2 ^ K"
      by simp
    also from N have "\<dots> \<le> real_of_int N / 2 ^ K"
    proof -
      from N have "(2::real) ^ 52 \<le> real_of_int N"
        by (metis of_int_le_iff of_int_numeral of_int_power)
      then show ?thesis by (simp add: divide_right_mono)
    qed
    finally show False using lo by simp
  qed
qed

lemma float64_thresholds_on_float64:
  assumes "is_float64 x"
  shows "(x \<ge> float64_0_7) = (x \<ge> 7 / 10 \<or> x = float64_0_7)
       \<and> (x \<ge> float64_0_4) = (x \<ge> 4 / 10)
       \<and> (x \<ge> float64_0_8) = (x \<ge> 8 / 10)"
proof (intro conjI)
  show "(x \<ge> float64_0_7) = (x \<ge> 7 / 10 \<or> x = float64_0_7)"
  proof (rule ccontr)
    assume "\<not> ?thesis"
    then have "float64_0_7 < x \<and> x < 7 / 10"
      using float64_constants_order by auto
    then have "real_of_int 6305039478318694 / 2 ^ 53 < x
        \<and> x < (real_of_int 6305039478318694 + 1) / 2 ^ 53"
      by (simp add: float64_0_7_def)
    with no_float64_between [OF assms, of 6305039478318694 53] show False by simp
  qed
  show "(x \<ge> float64_0_4) = (x \<ge> 4 / 10)"
  proof (rule ccontr)
    assume "\<not> ?thesis"
    then have "4 / 10 \<le> x \<and> x < float64_0_4"
      using float64_constants_order by auto
    then have "real_of_int 7205759403792793 / 2 ^ 54 < x
        \<and> x < (real_of_int 7205759403792793 + 1) / 2 ^ 54"
      by (simp add: float64_0_4_def)
    with no_float64_between [OF assms, of 7205759403792793 54] show False by simp
  qed
  show "(x \<ge> float64_0_8) = (x \<ge> 8 / 10)"
  proof (rule ccontr)
    assume "\<not> ?thesis"
    then have "8 / 10 \<le> x \<and> x < float64_0_8"
      using float64_constants_order by auto
    then have "real_of_int 7205759403792793 / 2 ^ 53 < x
        \<and> x < (real_of_int 7205759403792793 + 1) / 2 ^ 53"
      by (simp add: float64_0_8_def)
    with no_float64_between [OF assms, of 7205759403792793 53] show False by simp
  qed
qed

subsection \<open>The classification\<close>

lemma classifyEnergy_breakdown:
  "snd (classifyEnergy m) =
     \<lparr>BPMScore = table_bpm (BPM m), BeatsScore = table_beats (BeatsLoudness m),
      LoudnessScore = table_loudness (AverageLoudness m),
      DanceabilityScore = table_danceability (Danceability m),
      TotalScore = table_total m\<rparr>"
  by (simp add: classifyEnergy_def Let_def table_bpm_def table_beats_def table_loudness_def
      table_danceability_def table_total_def)

lemma classifyEnergy_label: "fst (classifyEnergy m) = table_label (TotalScore (snd (classifyEnergy m)))"
  by (simp add: classifyEnergy_def Let_def table_label_def)

text \<open>
  C4. \<open>classifyEnergy\<close> is a function of the metrics alone: its four sub-scores are those
  of the table, the total is their sum and the label is "high" from 5, "medium" from 2 and
  "low" below. BPM 140, beat loudness 0.75, average loudness 0.85, danceability 0.75 give
  3, 2, 1, 1, total 7, "high"; BPM 90, 0.3, 0.5, 0.2 give 1, 0, 0, 0, total 1, "low", for
  the decimals and for the float64 values written so. On the thresholds themselves, as
  float64 values, the higher score is given. On every float64 value the table's
  comparisons are those with the decimals 0.7, 0.4 and 0.8, the value written 0.7 counting
  as at least 0.7.
\<close>

theorem classifyEnergy_table:
  "classifyEnergy m =
     (table_label (table_total m),
      \<lparr>BPMScore = table_bpm (BPM m), BeatsScore = table_beats (BeatsLoudness m),
       LoudnessScore = table_loudness (AverageLoudness m),
       DanceabilityScore = table_danceability (Danceability m),
       TotalScore = table_total m\<rparr>)
   \<and> classifyEnergy \<lparr>BPM = Fin 140, BeatsLoudness = Fin (75 / 100),
         AverageLoudness = Fin (85 / 100), Danceability = Fin (75 / 100)\<rparr> =
       (''high'', \<lparr>BPMScore = 3, BeatsScore = 2, LoudnessScore = 1,
                   DanceabilityScore = 1, TotalScore = 7\<rparr>)
   \<and> classifyEnergy \<lparr>BPM = Fin 90, BeatsLoudness = Fin (3 / 10),
         AverageLoudness = Fin (5 / 10), Danceability = Fin (2 / 10)\<rparr> =
       (''low'', \<lparr>BPMScore = 1, BeatsScore = 0, LoudnessScore = 0,
                  DanceabilityScore = 0, TotalScore = 1\<rparr>)
   \<and> classifyEnergy \<lparr>BPM = Fin 140, BeatsLoudness = Fin (75 / 100),
         AverageLoudness = Fin float64_0_85, Danceability = Fin (75 / 100)\<rparr> =
       (''high'', \<lparr>BPMScore = 3, BeatsScore = 2, LoudnessScore = 1,
                   DanceabilityScore = 1, TotalScore = 7\<rparr>)
   \<and> classifyEnergy \<lparr>BPM = Fin 90, BeatsLoudness = Fin float64_0_3,
         AverageLoudness = Fin (5 / 10), Danceability = Fin float64_0_2\<rparr> =
       (''low'', \<lparr>BPMScore = 1, BeatsScore = 0, LoudnessScore = 0,
                  DanceabilityScore = 0, TotalScore = 1\<rparr>)
   \<and> classifyEnergy \<lparr>BPM = Fin 130, BeatsLoudness = Fin float64_0_7,
         AverageLoudness = Fin float64_0_8, Danceability = Fin float64_0_7\<rparr> =
       (''high'', \<lparr>BPMScore = 3, BeatsScore = 2, LoudnessScore = 1,
                   DanceabilityScore = 1, TotalScore = 7\<rparr>)
   \<and> classifyEnergy \<lparr>BPM = Fin 85, BeatsLoudness = Fin float64_0_4,
         AverageLoudness = Fin (5 / 10), Danceability = Fin (5 / 10)\<rparr> =
       (''medium'', \<lparr>BPMScore = 1, BeatsScore = 1, LoudnessScore = 0,
                     DanceabilityScore = 0, TotalScore = 2\<rparr>)
   \<and> (is_float64 x \<longrightarrow>
        table_beats (Fin x) =
          (if x \<ge> 7 / 10 \<or> x = float64_0_7 then 2 else if x \<ge> 4 / 10 then 1 else 0)
        \<and> table_loudness (Fin x) = (if x \<ge> 8 / 10 then 1 else 0)
        \<and> table_danceability (Fin x) = (if x \<ge> 7 / 10 \<or> x = float64_0_7 then 1 else 0))"
proof -
  have "classifyEnergy m = (fst (classifyEnergy m), snd (classifyEnergy m))"
    by simp
  also have "\<dots> = (table_label (table_total m), snd (classifyEnergy m))"
    by (simp add: classifyEnergy_label classifyEnergy_breakdown)
  finally have general: "classifyEnergy m =
     (table_label (table_total m),
      \<lparr>BPMScore = table_bpm (BPM m), BeatsScore = table_beats (BeatsLoudness m),
       LoudnessScore = table_loudness (AverageLoudness m),
       DanceabilityScore = table_danceability (Danceability m),
       TotalScore = table_total m\<rparr>)"
    by (simp add: classifyEnergy_breakdown)
  have decimals: "is_float64 x \<longrightarrow>
        table_beats (Fin x) =
          (if x \<ge> 7 / 10 \<or> x = float64_0_7 then 2 else if x \<ge> 4 / 10 then 1 else 0)
        \<and> table_loudness (Fin x) = (if x \<ge> 8 / 10 then 1 else 0)
        \<and> table_danceability (Fin x) = (if x \<ge> 7 / 10 \<or> x = float64_0_7 then 1 else 0)"
  proof
    assume "is_float64 x"
    from float64_thresholds_on_float64 [OF this]
    show "table_beats (Fin x) =
          (if x \<ge> 7 / 10 \<or> x = float64_0_7 then 2 else if x \<ge> 4 / 10 then 1 else 0)
        \<and> table_loudness (Fin x) = (if x \<ge> 8 / 10 then 1 else 0)
        \<and> table_danceability (Fin x) = (if x \<ge> 7 / 10 \<or> x = float64_0_7 then 1 else 0)"
      by (simp add: table_beats_def table_loudness_def table_danceability_def)
  qed
  have examples:
    "classifyEnergy \<lparr>BPM = Fin 140, BeatsLoudness = Fin (75 / 100),
         AverageLoudness = Fin (85 / 100), Danceability = Fin (75 / 100)\<rparr> =
       (''high'', \<lparr>BPMScore = 3, BeatsScore = 2, LoudnessScore = 1,
                   DanceabilityScore = 1, TotalScore = 7\<rparr>)"
    "classifyEnergy \<lparr>BPM = Fin 90, BeatsLoudness = Fin (3 / 10),
         AverageLoudness = Fin (5 / 10), Danceability = Fin (2 / 10)\<rparr> =
       (''low'', \<lparr>BPMScore = 1, BeatsScore = 0, LoudnessScore = 0,
                  DanceabilityScore = 0, TotalScore = 1\<rparr>)"
    "classifyEnergy \<lparr>BPM = Fin 140, BeatsLoudness = Fin (75 / 100),
         AverageLoudness = Fin float64_0_85, Danceability = Fin (75 / 100)\<rparr> =
       (''high'', \<lparr>BPMScore = 3, BeatsScore = 2, LoudnessScore = 1,
                   DanceabilityScore = 1, TotalScore = 7\<rparr>)"
    "classifyEnergy \<lparr>BPM = Fin 90, BeatsLoudness = Fin float64_0_3,
         AverageLoudness = Fin (5 / 10), Danceability = Fin float64_0_2\<rparr> =
       (''low'', \<lparr>BPMScore = 1, BeatsScore = 0, LoudnessScore = 0,
                  DanceabilityScore = 0, TotalScore = 1\<rparr>)"
    "classifyEnergy \<lparr>BPM = Fin 130, BeatsLoudness = Fin float64_0_7,
         AverageLoudness = Fin float64_0_8, Danceability = Fin float64_0_7\<rparr> =
       (''high'', \<lparr>BPMScore = 3, BeatsScore = 2, LoudnessScore = 1,
                   DanceabilityScore = 1, TotalScore = 7\<rparr>)"
    "classifyEnergy \<lparr>BPM = Fin 85, BeatsLoudness = Fin float64_0_4,
         AverageLoudness = Fin (5 / 10), Danceability = Fin (5 / 10)\<rparr> =
       (''medium'', \<lparr>BPMScore = 1, BeatsScore = 1, LoudnessScore = 0,
                     DanceabilityScore = 0, TotalScore = 2\<rparr>)"
    by (simp_all add: classifyEnergy_def Let_def float64_0_7_def float64_0_4_def float64_0_8_def
        float64_0_85_def float64_0_3_def float64_0_2_def)
  from general examples decimals show ?thesis by blast
qed

theorem classifyEnergy_table_witness:
  "is_float64 (75 / 100) \<and> is_float64 float64_0_7
   \<and> table_beats (Fin (75 / 100)) = 2 \<and> table_loudness (Fin (75 / 100)) = 0
   \<and> table_danceability (Fin (75 / 100)) = 1
   \<and> table_beats (Fin float64_0_7) = 2 \<and> table_loudness (Fin float64_0_7) = 0
   \<and> table_danceability (Fin float64_0_7) = 1"
proof -
  have a: "is_float64 (75 / 100)"
    unfolding is_float64_def
    by (intro exI [of _ "3::int"] exI [of _ "2::nat"]) simp
  have b: "is_float64 float64_0_7"
    unfolding is_float64_def float64_0_7_def
    by (rule exI [of _ "3152519739159347::int"], rule exI [of _ "52::nat"]) simp
  have lt: "float64_0_7 < 8 / 10" "\<not> (8::real) / 10 \<le> 75 / 100" "(7::real) / 10 \<le> 75 / 100"
    by (simp_all add: float64_0_7_def)
  note T = classifyEnergy_table [THEN conjunct2, THEN conjunct2, THEN conjunct2, THEN conjunct2,
      THEN conjunct2, THEN conjunct2, THEN conjunct2]
  from mp [OF T [of "75 / 100"] a] mp [OF T [of float64_0_7] b] a b lt
  show ?thesis by simp
qed

section \<open>The batch counters\<close>

lemma processSong_fetch_result:
  "fst (processSong_fetch env song p w) = \<lparr>fetched = False, failed = True, skipped = False\<rparr>
   \<or> fst (processSong_fetch env song p w) = \<lparr>fetched = True, failed = False, skipped = False\<rparr>"
  by (simp add: processSong_fetch_def split: prod.splits sum.splits option.splits)

lemma processSong_result:
  "fst (processSong env song w) \<in>
     {\<lparr>fetched = True, failed = False, skipped = False\<rparr>,
      \<lparr>fetched = False, failed = True, skipped = False\<rparr>,
      \<lparr>fetched = False, failed = False, skipped = True\<rparr>}"
  using processSong_fetch_result [of env song]
  by (auto simp add: processSong_def Let_def split: prod.splits option.splits)

lemma fetchTrackData_loop_sum:
  "fetchTrackData_loop env songs (f, x, s) w = ((f', x', s'), w')
   \<Longrightarrow> f' + x' + s' = f + x + s + length songs"
proof (induction songs arbitrary: f x s w)
  case Nil
  then show ?case by simp
next
  case (Cons song songs)
  obtain r w1 where r: "processSong env song w = (r, w1)" by (cases "processSong env song w")
  from processSong_result [of env song w] r
  consider "fetched r" | "\<not> fetched r" "failed r" | "\<not> fetched r" "\<not> failed r" "skipped r"
    by auto
  then show ?case
  proof cases
    case 1
    with Cons.prems r have "fetchTrackData_loop env songs (f + 1, x, s) w1 = ((f', x', s'), w')" by simp
    from Cons.IH [OF this] show ?thesis by simp
  next
    case 2
    with Cons.prems r have "fetchTrackData_loop env songs (f, x + 1, s) w1 = ((f', x', s'), w')" by simp
    from Cons.IH [OF this] show ?thesis by simp
  next
    case 3
    with Cons.prems r have "fetchTrackData_loop env songs (f, x, s + 1) w1 = ((f', x', s'), w')" by simp
    from Cons.IH [OF this] show ?thesis by simp
  qed
qed

lemma fetchLyrics_fetch_counts:
  "fetchLyrics_fetch env song resp w = (resp', w') \<Longrightarrow>
   Total resp' = Total resp \<and> Skipped resp' = Skipped resp \<and>
   (Fetched resp', Failed resp') \<in> {(Fetched resp + 1, Failed resp), (Fetched resp, Failed resp + 1)}"
  by (auto simp add: fetchLyrics_fetch_def Let_def split: prod.splits sum.splits option.splits if_splits bool.splits)

lemma fetchLyrics_song_counts:
  "fetchLyrics_song env song resp w = (resp', w') \<Longrightarrow>
   Total resp' = Total resp \<and>
   (Fetched resp', Failed resp', Skipped resp') \<in>
     {(Fetched resp + 1, Failed resp, Skipped resp),
      (Fetched resp, Failed resp + 1, Skipped resp),
      (Fetched resp, Failed resp, Skipped resp + 1)}"
  by (auto simp add: fetchLyrics_song_def Let_def split: prod.splits if_splits dest: fetchLyrics_fetch_counts)

lemma fetchLyrics_loop_sum:
  "fetchLyrics_loop env songs resp w = (resp', w') \<Longrightarrow>
   Total resp' = Total resp \<and>
   Fetched resp' + Failed resp' + Skipped resp' =
     Fetched resp + Failed resp + Skipped resp + length songs"
proof (induction songs arbitrary: resp w)
  case Nil
  then show ?case by simp
next
  case (Cons song songs)
  obtain r1 w1 where s: "fetchLyrics_song env song resp w = (r1, w1)"
    by (cases "fetchLyrics_song env song resp w")
  with Cons.prems have "fetchLyrics_loop env songs r1 w1 = (resp', w')" by simp
  from Cons.IH [OF this] fetchLyrics_song_counts [OF s] show ?case by auto
qed

text \<open>
  C1. For every batch run, of track metrics or of lyrics, the total returned is the number
  of member files supplied, it is the sum of the fetched, failed and skipped counters, and
  one file moves exactly one of the three counters, by one.
\<close>

theorem batch_counters:
  "Total (fst (fetchTrackDataForSongs env songs w)) = length songs
   \<and> Total (fst (fetchTrackDataForSongs env songs w)) =
       Fetched (fst (fetchTrackDataForSongs env songs w))
       + Failed (fst (fetchTrackDataForSongs env songs w))
       + Skipped (fst (fetchTrackDataForSongs env songs w))
   \<and> fst (fetchTrackData_loop env [song] (f, x, s) w) \<in>
       {(f + 1, x, s), (f, x + 1, s), (f, x, s + 1)}
   \<and> Total (fst (fetchLyricsForSongs env songs w)) = length songs
   \<and> Total (fst (fetchLyricsForSongs env songs w)) =
       Fetched (fst (fetchLyricsForSongs env songs w))
       + Failed (fst (fetchLyricsForSongs env songs w))
       + Skipped (fst (fetchLyricsForSongs env songs w))
   \<and> (Fetched (fst (fetchLyrics_song env song resp w)),
       Failed (fst (fetchLyrics_song env song resp w)),
       Skipped (fst (fetchLyrics_song env song resp w))) \<in>
       {(Fetched resp + 1, Failed resp, Skipped resp),
        (Fetched resp, Failed resp + 1, Skipped resp),
        (Fetched resp, Failed resp, Skipped resp + 1)}"
proof -
  obtain f' x' s' w' where l: "fetchTrackData_loop env songs (0, 0, 0) w = ((f', x', s'), w')"
    by (cases "fetchTrackData_loop env songs (0, 0, 0) w") auto
  have t: "fst (fetchTrackDataForSongs env songs w) =
      \<lparr>Total = length songs, Fetched = f', Failed = x', Skipped = s'\<rparr>"
    by (simp add: fetchTrackDataForSongs_def l)
  from fetchTrackData_loop_sum [OF l] have sum: "f' + x' + s' = length songs" by simp
  obtain r w1 where p: "processSong env song w = (r, w1)"
    by (cases "processSong env song w")
  from processSong_result [of env song w] p
  have one: "fst (fetchTrackData_loop env [song] (f, x, s) w) \<in>
       {(f + 1, x, s), (f, x + 1, s), (f, x, s + 1)}"
    by auto
  obtain rl wl where ll: "fetchLyricsForSongs env songs w = (rl, wl)"
    by (cases "fetchLyricsForSongs env songs w")
  then have "fetchLyrics_loop env songs \<lparr>Total = length songs, Fetched = 0, Failed = 0, Skipped = 0\<rparr> w = (rl, wl)"
    by (simp add: fetchLyricsForSongs_def)
  from fetchLyrics_loop_sum [OF this]
  have lsum: "Total rl = length songs \<and> Fetched rl + Failed rl + Skipped rl = length songs"
    by simp
  obtain r2 w2 where b: "fetchLyrics_song env song resp w = (r2, w2)"
    by (cases "fetchLyrics_song env song resp w")
  from fetchLyrics_song_counts [OF b] have lone:
    "(Fetched r2, Failed r2, Skipped r2) \<in>
       {(Fetched resp + 1, Failed resp, Skipped resp),
        (Fetched resp, Failed resp + 1, Skipped resp),
        (Fetched resp, Failed resp, Skipped resp + 1)}"
    by simp
  show ?thesis
    using sum one lsum lone by (simp only: t ll b fst_conv) simp
qed

section \<open>The retry loop under rate limiting\<close>

lemma retryLoop_step:
  assumes "attempt < 5"
      and "attempt > 0 \<Longrightarrow> \<not> ctx_Done env (trace w)"
      and "\<forall>h. \<exists>b. client_Do env h artist title = Response 429 b"
  shows "\<exists>resp'. retryLoop env artist title attempt resp w =
           retryLoop env artist title (Suc attempt) resp'
             (w\<lparr>trace := trace w @ (if attempt > 0 then [BackoffElapsed (2 ^ attempt)] else [])
                      @ [HttpGet artist title]\<rparr>)"
proof (cases "attempt > 0")
  case True
  let ?w1 = "emit (BackoffElapsed (2 ^ attempt)) w"
  from assms(3) obtain b where b: "client_Do env (trace ?w1) artist title = Response 429 b"
    by blast
  from True assms(1,2) b show ?thesis
    by (intro exI [of _ "Some (429, b)"], subst retryLoop.simps)
      (simp add: maxRetries_def backoffWait_def Let_def emit_def)
next
  case False
  from assms(3) obtain b where b: "client_Do env (trace w) artist title = Response 429 b"
    by blast
  from False assms(1) b show ?thesis
    by (intro exI [of _ "Some (429, b)"], subst retryLoop.simps)
      (simp add: maxRetries_def Let_def emit_def)
qed

lemma retryLoop_prefix:
  assumes "\<forall>h. \<exists>b. client_Do env h artist title = Response 429 b"
      and "k \<le> 5"
      and "\<forall>j. 1 \<le> j \<and> j < k \<longrightarrow> \<not> ctx_Done env (trace w @ attemptsTrace artist title j)"
  shows "\<exists>resp'. retryLoop env artist title 0 None w =
           retryLoop env artist title k resp' (w\<lparr>trace := trace w @ attemptsTrace artist title k\<rparr>)"
  using assms(2,3)
proof (induction k)
  case 0
  show ?case by (rule exI [of _ None]) simp
next
  case (Suc k)
  from Suc.prems have "\<forall>j. 1 \<le> j \<and> j < k \<longrightarrow> \<not> ctx_Done env (trace w @ attemptsTrace artist title j)"
    by simp
  with Suc.IH Suc.prems(1) obtain r where r: "retryLoop env artist title 0 None w =
      retryLoop env artist title k r (w\<lparr>trace := trace w @ attemptsTrace artist title k\<rparr>)"
    by auto
  let ?w = "w\<lparr>trace := trace w @ attemptsTrace artist title k\<rparr>"
  have nc: "k > 0 \<Longrightarrow> \<not> ctx_Done env (trace ?w)"
    using Suc.prems(2) by simp
  from Suc.prems(1) have "k < 5" by simp
  from retryLoop_step [OF this nc assms(1), of r]
  obtain r' where "retryLoop env artist title k r ?w =
      retryLoop env artist title (Suc k) r'
        (?w\<lparr>trace := trace ?w @ (if k > 0 then [BackoffElapsed (2 ^ k)] else []) @ [HttpGet artist title]\<rparr>)"
    by blast
  with r show ?case by auto
qed

lemma retryLoop_last:
  assumes "\<forall>h. \<exists>b. client_Do env h artist title = Response 429 b"
      and "\<not> ctx_Done env (trace w)"
  shows "retryLoop env artist title 5 resp w =
     (Inl ErrRateLimited, w\<lparr>trace := trace w @ [BackoffElapsed 32, HttpGet artist title]\<rparr>)"
proof -
  let ?w1 = "emit (BackoffElapsed (2 ^ 5)) w"
  from assms(1) obtain b where b: "client_Do env (trace ?w1) artist title = Response 429 b"
    by blast
  from assms(2) b show ?thesis
    by (subst retryLoop.simps) (simp add: maxRetries_def backoffWait_def Let_def emit_def)
qed

lemma retryLoop_cancelled:
  assumes "0 < k" "k \<le> 5" "ctx_Done env (trace w)"
  shows "retryLoop env artist title k resp w =
     (Inl ErrContext, w\<lparr>trace := trace w @ [BackoffCancelled (2 ^ k)]\<rparr>)"
  using assms
  by (subst retryLoop.simps) (simp add: maxRetries_def backoffWait_def Let_def emit_def)

lemma attemptsTrace_6:
  "attemptsTrace artist title 6 =
     [HttpGet artist title, BackoffElapsed 2, HttpGet artist title,
      BackoffElapsed 4, HttpGet artist title, BackoffElapsed 8, HttpGet artist title,
      BackoffElapsed 16, HttpGet artist title, BackoffElapsed 32, HttpGet artist title]"
  by (simp add: eval_nat_numeral)

text \<open>
  C5, as the specification states it, fails. With every answer a 429 and no cancellation
  the client makes six requests and returns the rate-limit error, but the completed waits
  are 2, 4, 8, 16 and 32 seconds: five waits, none of one second.
\<close>

theorem FetchTrackData_waits_counterexample:
  "fst (FetchTrackData env429 ''Artist'' ''Title'' world0) = Inl ErrRateLimited
   \<and> waits (trace (snd (FetchTrackData env429 ''Artist'' ''Title'' world0))) = [2, 4, 8, 16, 32]
   \<and> waits (trace (snd (FetchTrackData env429 ''Artist'' ''Title'' world0))) \<noteq> [1, 2, 4, 8, 16, 32]"
proof -
  have all429: "\<forall>h. \<exists>b. client_Do env429 h ''Artist'' ''Title'' = Response 429 b"
    by (simp add: env429_def env0_def)
  have nc: "\<And>h. \<not> ctx_Done env429 h"
    by (simp add: env429_def env0_def)
  from retryLoop_prefix [OF all429, of 5 world0] nc
  obtain r where "retryLoop env429 ''Artist'' ''Title'' 0 None world0 =
      retryLoop env429 ''Artist'' ''Title'' 5 r
        (world0\<lparr>trace := trace world0 @ attemptsTrace ''Artist'' ''Title'' 5\<rparr>)"
    by auto
  with retryLoop_last [OF all429 nc]
  have loop: "retryLoop env429 ''Artist'' ''Title'' 0 None world0 =
      (Inl ErrRateLimited,
       world0\<lparr>trace := trace world0 @ attemptsTrace ''Artist'' ''Title'' 6\<rparr>)"
    by (simp add: eval_nat_numeral)
  have "FetchTrackData env429 ''Artist'' ''Title'' world0 =
      (Inl ErrRateLimited,
       world0\<lparr>trace := trace world0 @ attemptsTrace ''Artist'' ''Title'' 6\<rparr>)"
    by (simp add: FetchTrackData_def loop) (simp add: env429_def env0_def)
  then show ?thesis
    by (simp add: world0_def attemptsTrace_6)
qed

text \<open>
  C5, amended. With a key, an artist and a title, and every answer a 429: when no wait is
  cancelled the client makes six requests, waits 2, 4, 8, 16 and 32 seconds before the
  second to the sixth, and returns the rate-limit error; when the context is done during
  the wait before attempt \<open>k + 1\<close> (and not during an earlier wait) it returns the
  context's error at once, with no further request.
\<close>

theorem FetchTrackData_rate_limited:
  assumes key: "getAPIKey env \<noteq> []" and artist: "artist \<noteq> []" and title: "title \<noteq> []"
    and all429: "\<forall>h. \<exists>b. client_Do env h artist title = Response 429 b"
  shows "((\<forall>j. 1 \<le> j \<and> j \<le> 5 \<longrightarrow> \<not> ctx_Done env (trace w @ attemptsTrace artist title j)) \<longrightarrow>
            FetchTrackData env artist title w =
              (Inl ErrRateLimited, w\<lparr>trace := trace w @ attemptsTrace artist title 6\<rparr>))
       \<and> attemptsTrace artist title 6 =
            [HttpGet artist title, BackoffElapsed 2, HttpGet artist title,
             BackoffElapsed 4, HttpGet artist title, BackoffElapsed 8, HttpGet artist title,
             BackoffElapsed 16, HttpGet artist title, BackoffElapsed 32, HttpGet artist title]
       \<and> (\<forall>k. 1 \<le> k \<and> k \<le> 5
              \<and> (\<forall>j. 1 \<le> j \<and> j < k \<longrightarrow> \<not> ctx_Done env (trace w @ attemptsTrace artist title j))
              \<and> ctx_Done env (trace w @ attemptsTrace artist title k) \<longrightarrow>
            FetchTrackData env artist title w =
              (Inl ErrContext,
               w\<lparr>trace := trace w @ attemptsTrace artist title k @ [BackoffCancelled (2 ^ k)]\<rparr>))"
proof (intro conjI impI allI)
  assume nc: "\<forall>j. 1 \<le> j \<and> j \<le> 5 \<longrightarrow> \<not> ctx_Done env (trace w @ attemptsTrace artist title j)"
  then have "\<forall>j. 1 \<le> j \<and> j < 5 \<longrightarrow> \<not> ctx_Done env (trace w @ attemptsTrace artist title j)"
    by simp
  from retryLoop_prefix [OF all429 _ this]
  obtain r where "retryLoop env artist title 0 None w =
      retryLoop env artist title 5 r (w\<lparr>trace := trace w @ attemptsTrace artist title 5\<rparr>)"
    by auto
  moreover from nc have c: "\<not> ctx_Done env (trace (w\<lparr>trace := trace w @ attemptsTrace artist title 5\<rparr>))"
    by simp
  ultimately have "retryLoop env artist title 0 None w =
      (Inl ErrRateLimited, w\<lparr>trace := trace w @ attemptsTrace artist title 6\<rparr>)"
    using retryLoop_last [OF all429 c, of r] by (simp add: eval_nat_numeral)
  with key artist title show "FetchTrackData env artist title w =
      (Inl ErrRateLimited, w\<lparr>trace := trace w @ attemptsTrace artist title 6\<rparr>)"
    by (simp add: FetchTrackData_def)
next
  show "attemptsTrace artist title 6 =
            [HttpGet artist title, BackoffElapsed 2, HttpGet artist title,
             BackoffElapsed 4, HttpGet artist title, BackoffElapsed 8, HttpGet artist title,
             BackoffElapsed 16, HttpGet artist title, BackoffElapsed 32, HttpGet artist title]"
    by (rule attemptsTrace_6)
next
  fix k
  assume h: "1 \<le> k \<and> k \<le> 5
     \<and> (\<forall>j. 1 \<le> j \<and> j < k \<longrightarrow> \<not> ctx_Done env (trace w @ attemptsTrace artist title j))
     \<and> ctx_Done env (trace w @ attemptsTrace artist title k)"
  then have k: "0 < k" "k \<le> 5" by auto
  from h retryLoop_prefix [OF all429 k(2), of w]
  obtain r where "retryLoop env artist title 0 None w =
      retryLoop env artist title k r (w\<lparr>trace := trace w @ attemptsTrace artist title k\<rparr>)"
    by auto
  moreover from h have c: "ctx_Done env (trace (w\<lparr>trace := trace w @ attemptsTrace artist title k\<rparr>))"
    by simp
  ultimately have "retryLoop env artist title 0 None w =
      (Inl ErrContext, w\<lparr>trace := trace w @ attemptsTrace artist title k @ [BackoffCancelled (2 ^ k)]\<rparr>)"
    using retryLoop_cancelled [OF k c, of artist title r] by simp
  with key artist title show "FetchTrackData env artist title w =
      (Inl ErrContext, w\<lparr>trace := trace w @ attemptsTrace artist title k @ [BackoffCancelled (2 ^ k)]\<rparr>)"
    by (simp add: FetchTrackData_def)
qed

theorem FetchTrackData_rate_limited_witness:
  "getAPIKey env429 \<noteq> [] \<and> ''Artist'' \<noteq> [] \<and> ''Title'' \<noteq> []
   \<and> (\<forall>h. \<exists>b. client_Do env429 h ''Artist'' ''Title'' = Response 429 b)
   \<and> (\<forall>h. \<not> ctx_Done env429 h)
   \<and> FetchTrackData env429 ''Artist'' ''Title'' world0 =
       (Inl ErrRateLimited,
        \<lparr>trace = [HttpGet ''Artist'' ''Title'', BackoffElapsed 2, HttpGet ''Artist'' ''Title'',
             BackoffElapsed 4, HttpGet ''Artist'' ''Title'', BackoffElapsed 8,
             HttpGet ''Artist'' ''Title'', BackoffElapsed 16, HttpGet ''Artist'' ''Title'',
             BackoffElapsed 32, HttpGet ''Artist'' ''Title''],
         rows = [song0]\<rparr>)
   \<and> getAPIKey env429_cancel \<noteq> []
   \<and> (\<forall>h. \<exists>b. client_Do env429_cancel h ''Artist'' ''Title'' = Response 429 b)
   \<and> \<not> ctx_Done env429_cancel (trace world0 @ attemptsTrace ''Artist'' ''Title'' 1)
   \<and> ctx_Done env429_cancel (trace world0 @ attemptsTrace ''Artist'' ''Title'' 2)
   \<and> FetchTrackData env429_cancel ''Artist'' ''Title'' world0 =
       (Inl ErrContext,
        \<lparr>trace = [HttpGet ''Artist'' ''Title'', BackoffElapsed 2, HttpGet ''Artist'' ''Title'',
                  BackoffCancelled 4],
         rows = [song0]\<rparr>)"
proof -
  have key: "getAPIKey env429 \<noteq> []" "getAPIKey env429_cancel \<noteq> []"
    by (simp_all add: env429_cancel_def env429_def env0_def)
  have names: "''Artist'' \<noteq> []" "''Title'' \<noteq> []"
    by simp_all
  have all429: "\<forall>h. \<exists>b. client_Do env429 h ''Artist'' ''Title'' = Response 429 b"
    "\<forall>h. \<exists>b. client_Do env429_cancel h ''Artist'' ''Title'' = Response 429 b"
    by (simp_all add: env429_cancel_def env429_def env0_def)
  have nc: "\<forall>h. \<not> ctx_Done env429 h"
    by (simp add: env429_def env0_def)
  have c1: "\<not> ctx_Done env429_cancel (trace world0 @ attemptsTrace ''Artist'' ''Title'' 1)"
    by (simp add: env429_cancel_def world0_def)
  have c2: "ctx_Done env429_cancel (trace world0 @ attemptsTrace ''Artist'' ''Title'' 2)"
    by (simp add: env429_cancel_def world0_def eval_nat_numeral)
  have j: "\<forall>j. 1 \<le> j \<and> j < (2::nat) \<longrightarrow>
      \<not> ctx_Done env429_cancel (trace world0 @ attemptsTrace ''Artist'' ''Title'' j)"
  proof (intro allI impI)
    fix j :: nat
    assume "1 \<le> j \<and> j < 2"
    then have "j = 1" by simp
    with c1 show "\<not> ctx_Done env429_cancel (trace world0 @ attemptsTrace ''Artist'' ''Title'' j)"
      by simp
  qed
  note a = FetchTrackData_rate_limited [OF key(1) names all429(1), of world0]
  note b = FetchTrackData_rate_limited [OF key(2) names all429(2), of world0]
  from a nc have ra: "FetchTrackData env429 ''Artist'' ''Title'' world0 =
      (Inl ErrRateLimited, world0\<lparr>trace := trace world0 @ attemptsTrace ''Artist'' ''Title'' 6\<rparr>)"
    by blast
  from b have "(1::nat) \<le> 2 \<and> (2::nat) \<le> 5
      \<and> (\<forall>j. 1 \<le> j \<and> j < 2 \<longrightarrow>
            \<not> ctx_Done env429_cancel (trace world0 @ attemptsTrace ''Artist'' ''Title'' j))
      \<and> ctx_Done env429_cancel (trace world0 @ attemptsTrace ''Artist'' ''Title'' 2) \<longrightarrow>
      FetchTrackData env429_cancel ''Artist'' ''Title'' world0 =
      (Inl ErrContext, world0\<lparr>trace := trace world0 @ attemptsTrace ''Artist'' ''Title'' 2
          @ [BackoffCancelled (2 ^ 2)]\<rparr>)"
    by blast
  with j c2 have rb: "FetchTrackData env429_cancel ''Artist'' ''Title'' world0 =
      (Inl ErrContext, world0\<lparr>trace := trace world0 @ attemptsTrace ''Artist'' ''Title'' 2
          @ [BackoffCancelled (2 ^ 2)]\<rparr>)"
    by simp
  show ?thesis
    using key names all429 nc c1 c2
    by (simp add: ra rb attemptsTrace_6) (simp add: world0_def eval_nat_numeral)
qed

section \<open>Setting a tag: validation, write order, read back\<close>

lemma slices_Contains_set: "slices_Contains xs v \<longleftrightarrow> v \<in> set xs"
  by (induction xs) auto

lemma find_put_row: "find (\<lambda>r. ID r = ID mf) (put_row mf rs) = Some mf"
  by (induction rs) auto

lemma find_put_row_other:
  "i \<noteq> ID mf \<Longrightarrow> find (\<lambda>r. ID r = i) (put_row mf rs) = find (\<lambda>r. ID r = i) rs"
  by (induction rs) auto

lemma find_ID: "find (\<lambda>r. ID r = i) rs = Some mf \<Longrightarrow> ID mf = i"
  by (induction rs) (auto split: if_splits)

text \<open>
  C6. When the write of the tag to the file fails, \<open>setEnergy\<close> and \<open>setMood\<close> answer
  with an error (status 500) and leave the data store as it was: the row keeps its tags
  and its update time, and the only calls made are the \<open>Get\<close> and the failed write, no
  \<open>Put\<close>.
\<close>

theorem SetTag_write_failure:
  assumes "\<not> ds_Get_err env (trace w) ident"
      and "find (\<lambda>r. ID r = ident) (rows w) = Some mf"
      and "fullPath = filepath_Join env (LibraryPath mf) (Path mf)"
  shows "(slices_Contains validEnergyValues val
          \<and> taglib_WriteTag env (trace w @ [DbGet ident]) fullPath ''ENERGY'' val = Some err \<longrightarrow>
          setEnergy env ident (Some val) w =
            (HttpError 500 (''Failed to write tag to file: '' @ err),
             w\<lparr>trace := trace w @ [DbGet ident, TaglibWriteTag fullPath ''ENERGY'' val]\<rparr>)
          \<and> rows (snd (setEnergy env ident (Some val) w)) = rows w
          \<and> find (\<lambda>r. ID r = ident) (rows (snd (setEnergy env ident (Some val) w))) = Some mf)
       \<and> (slices_Contains validMoodValues val
          \<and> taglib_WriteTag env (trace w @ [DbGet ident]) fullPath ''MOOD'' val = Some err \<longrightarrow>
          setMood env ident (Some val) w =
            (HttpError 500 (''Failed to write tag to file: '' @ err),
             w\<lparr>trace := trace w @ [DbGet ident, TaglibWriteTag fullPath ''MOOD'' val]\<rparr>)
          \<and> rows (snd (setMood env ident (Some val) w)) = rows w
          \<and> find (\<lambda>r. ID r = ident) (rows (snd (setMood env ident (Some val) w))) = Some mf)"
proof -
  from assms(1,2) have g: "ds_Get env ident w = (Inr mf, emit (DbGet ident) w)"
    by (simp add: ds_Get_def Let_def)
  show ?thesis
    using assms(2,3)
    by (simp add: setEnergy_def setMood_def g WriteTag_def emit_def Let_def)
qed

theorem SetTag_write_failure_witness:
  "\<not> ds_Get_err env_readonly (trace world1) ''s2''
   \<and> find (\<lambda>r. ID r = ''s2'') (rows world1) = Some song1
   \<and> ''/music/b.flac'' = filepath_Join env_readonly (LibraryPath song1) (Path song1)
   \<and> slices_Contains validEnergyValues ''high''
   \<and> taglib_WriteTag env_readonly (trace world1 @ [DbGet ''s2'']) ''/music/b.flac'' ''ENERGY'' ''high''
       = Some ''file is read-only: /music/b.flac''
   \<and> setEnergy env_readonly ''s2'' (Some ''high'') world1 =
       (HttpError 500 ''Failed to write tag to file: file is read-only: /music/b.flac'',
        \<lparr>trace = [DbGet ''s2'', TaglibWriteTag ''/music/b.flac'' ''ENERGY'' ''high''],
         rows = [song0, song1]\<rparr>)
   \<and> slices_Contains validMoodValues ''negative''
   \<and> taglib_WriteTag env_readonly (trace world1 @ [DbGet ''s2'']) ''/music/b.flac'' ''MOOD'' ''negative''
       = Some ''file is read-only: /music/b.flac''
   \<and> setMood env_readonly ''s2'' (Some ''negative'') world1 =
       (HttpError 500 ''Failed to write tag to file: file is read-only: /music/b.flac'',
        \<lparr>trace = [DbGet ''s2'', TaglibWriteTag ''/music/b.flac'' ''MOOD'' ''negative''],
         rows = [song0, song1]\<rparr>)"
proof -
  have h1: "\<not> ds_Get_err env_readonly (trace world1) ''s2''"
    by (simp add: env_readonly_def env0_def)
  have h2: "find (\<lambda>r. ID r = ''s2'') (rows world1) = Some song1"
    by (simp add: world1_def song1_def song0_def)
  have h3: "''/music/b.flac'' = filepath_Join env_readonly (LibraryPath song1) (Path song1)"
    by (simp add: env_readonly_def env0_def song1_def song0_def)
  have v: "slices_Contains validEnergyValues ''high''" "slices_Contains validMoodValues ''negative''"
    by (simp_all add: validEnergyValues_def validMoodValues_def)
  have f: "taglib_WriteTag env_readonly (trace world1 @ [DbGet ''s2'']) ''/music/b.flac'' ''ENERGY'' ''high''
       = Some ''file is read-only: /music/b.flac''"
    "taglib_WriteTag env_readonly (trace world1 @ [DbGet ''s2'']) ''/music/b.flac'' ''MOOD'' ''negative''
       = Some ''file is read-only: /music/b.flac''"
    by (simp_all add: env_readonly_def)
  note t1 = SetTag_write_failure [OF h1 h2 h3, of "''high''" "''file is read-only: /music/b.flac''"]
  note t2 = SetTag_write_failure [OF h1 h2 h3, of "''negative''" "''file is read-only: /music/b.flac''"]
  from t1 v(1) f(1) have e: "setEnergy env_readonly ''s2'' (Some ''high'') world1 =
       (HttpError 500 (''Failed to write tag to file: '' @ ''file is read-only: /music/b.flac''),
        world1\<lparr>trace := trace world1 @ [DbGet ''s2'', TaglibWriteTag ''/music/b.flac'' ''ENERGY'' ''high'']\<rparr>)"
    by blast
  from t2 v(2) f(2) have m: "setMood env_readonly ''s2'' (Some ''negative'') world1 =
       (HttpError 500 (''Failed to write tag to file: '' @ ''file is read-only: /music/b.flac''),
        world1\<lparr>trace := trace world1 @ [DbGet ''s2'', TaglibWriteTag ''/music/b.flac'' ''MOOD'' ''negative'']\<rparr>)"
    by blast
  show ?thesis
    using h1 h2 h3 v f by (simp add: e m) (simp add: world1_def)
qed

text \<open>
  C7. A value outside the enumeration of the tag (energy: empty, low, medium, high; mood:
  empty, negative, neutral, positive) is answered with status 400 before any call is
  made: the world, its trace, files and rows, is returned as it was.
\<close>

theorem SetTag_invalid_value:
  "(val \<notin> {[], ''low'', ''medium'', ''high''} \<longrightarrow>
      (\<exists>msg. setEnergy env ident (Some val) w = (HttpError 400 msg, w)))
   \<and> (val \<notin> {[], ''negative'', ''neutral'', ''positive''} \<longrightarrow>
      (\<exists>msg. setMood env ident (Some val) w = (HttpError 400 msg, w)))"
  by (simp add: setEnergy_def setMood_def slices_Contains_set validEnergyValues_def
      validMoodValues_def)

theorem SetTag_invalid_value_witness:
  "''extreme'' \<notin> {[], ''low'', ''medium'', ''high''}
   \<and> fst (setEnergy env0 ''s1'' (Some ''extreme'') world0) =
       HttpError 400 (''Invalid energy value. Must be one of: '' @ quoted [] @ '', ''
                 @ quoted ''low'' @ '', '' @ quoted ''medium'' @ '', '' @ quoted ''high'')
   \<and> snd (setEnergy env0 ''s1'' (Some ''extreme'') world0) = world0
   \<and> ''happy'' \<notin> {[], ''negative'', ''neutral'', ''positive''}
   \<and> (\<exists>msg. setMood env0 ''s1'' (Some ''happy'') world0 = (HttpError 400 msg, world0))"
proof -
  have a: "''extreme'' \<notin> {[], ''low'', ''medium'', ''high''}"
    and b: "''happy'' \<notin> {[], ''negative'', ''neutral'', ''positive''}"
    by simp_all
  from SetTag_invalid_value [of "''extreme''" env0 "''s1''" world0] a
  obtain msg where e: "setEnergy env0 ''s1'' (Some ''extreme'') world0 = (HttpError 400 msg, world0)"
    by blast
  from SetTag_invalid_value [of "''happy''" env0 "''s1''" world0] b
  have m: "\<exists>msg. setMood env0 ''s1'' (Some ''happy'') world0 = (HttpError 400 msg, world0)"
    by blast
  have "fst (setEnergy env0 ''s1'' (Some ''extreme'') world0) =
       HttpError 400 (''Invalid energy value. Must be one of: '' @ quoted [] @ '', ''
                 @ quoted ''low'' @ '', '' @ quoted ''medium'' @ '', '' @ quoted ''high'')"
    by (simp add: setEnergy_def validEnergyValues_def)
  with a b e m show ?thesis by simp
qed

text \<open>
  C8. After a successful \<open>setEnergy\<close> or \<open>setMood\<close> with a value of the enumeration, the
  row read back carries the value as a one-element list under the tag's name, and no
  entry at all under that name when the value was the empty string.
\<close>

theorem SetTag_then_read:
  "(val \<in> {[], ''low'', ''medium'', ''high''}
      \<and> setEnergy env ident (Some val) w = (SetEnergyResponse i v, w') \<longrightarrow>
      i = ident \<and> v = val
      \<and> (\<exists>mf. find (\<lambda>r. ID r = ident) (rows w') = Some mf
            \<and> Tags mf ''energy'' = (if val = [] then None else Some [val])))
   \<and> (val \<in> {[], ''negative'', ''neutral'', ''positive''}
      \<and> setMood env ident (Some val) w = (SetMoodResponse i v, w') \<longrightarrow>
      i = ident \<and> v = val
      \<and> (\<exists>mf. find (\<lambda>r. ID r = ident) (rows w') = Some mf
            \<and> Tags mf ''mood'' = (if val = [] then None else Some [val])))"
proof -
  have E: "val \<in> {[], ''low'', ''medium'', ''high''}
      \<and> setEnergy env ident (Some val) w = (SetEnergyResponse i v, w') \<longrightarrow>
      i = ident \<and> v = val
      \<and> (\<exists>mf. find (\<lambda>r. ID r = ident) (rows w') = Some mf
            \<and> Tags mf ''energy'' = (if val = [] then None else Some [val]))"
  proof (rule impI)
    assume h: "val \<in> {[], ''low'', ''medium'', ''high''}
        \<and> setEnergy env ident (Some val) w = (SetEnergyResponse i v, w')"
    then have ok: "slices_Contains validEnergyValues val"
      by (simp add: slices_Contains_set validEnergyValues_def)
    from h ok obtain mf where mf: "find (\<lambda>r. ID r = ident) (rows w) = Some mf"
      by (auto simp add: setEnergy_def ds_Get_def Let_def split: if_splits option.splits)
    then have idmf: "ID mf = ident" by (rule find_ID)
    let ?mf = "(if val = [] then mf\<lparr>Tags := (Tags mf)(''energy'' := None)\<rparr>
                else mf\<lparr>Tags := (Tags mf)(''energy'' \<mapsto> [val])\<rparr>)"
    let ?t = "time_Now env (trace w @ [DbGet ident,
        TaglibWriteTag (filepath_Join env (LibraryPath mf) (Path mf)) ''ENERGY'' val])"
    from h ok mf have r: "i = ident \<and> v = val \<and> rows w' = put_row (?mf\<lparr>UpdatedAt := ?t\<rparr>) (rows w)"
      by (auto simp add: setEnergy_def ds_Get_def ds_Put_def WriteTag_def emit_def Let_def
          split: if_splits option.splits)
    have "ID (?mf\<lparr>UpdatedAt := ?t\<rparr>) = ident"
      using idmf by simp
    with find_put_row [of "?mf\<lparr>UpdatedAt := ?t\<rparr>" "rows w"] r
    have "find (\<lambda>r. ID r = ident) (rows w') = Some (?mf\<lparr>UpdatedAt := ?t\<rparr>)"
      by simp
    moreover have "Tags (?mf\<lparr>UpdatedAt := ?t\<rparr>) ''energy'' = (if val = [] then None else Some [val])"
      by simp
    ultimately show "i = ident \<and> v = val
        \<and> (\<exists>mf. find (\<lambda>r. ID r = ident) (rows w') = Some mf
              \<and> Tags mf ''energy'' = (if val = [] then None else Some [val]))"
      using r by blast
  qed
  have M: "val \<in> {[], ''negative'', ''neutral'', ''positive''}
      \<and> setMood env ident (Some val) w = (SetMoodResponse i v, w') \<longrightarrow>
      i = ident \<and> v = val
      \<and> (\<exists>mf. find (\<lambda>r. ID r = ident) (rows w') = Some mf
            \<and> Tags mf ''mood'' = (if val = [] then None else Some [val]))"
  proof (rule impI)
    assume h: "val \<in> {[], ''negative'', ''neutral'', ''positive''}
        \<and> setMood env ident (Some val) w = (SetMoodResponse i v, w')"
    then have ok: "slices_Contains validMoodValues val"
      by (simp add: slices_Contains_set validMoodValues_def)
    from h ok obtain mf where mf: "find (\<lambda>r. ID r = ident) (rows w) = Some mf"
      by (auto simp add: setMood_def ds_Get_def Let_def split: if_splits option.splits)
    then have idmf: "ID mf = ident" by (rule find_ID)
    let ?mf = "(if val = [] then mf\<lparr>Tags := (Tags mf)(''mood'' := None)\<rparr>
                else mf\<lparr>Tags := (Tags mf)(''mood'' \<mapsto> [val])\<rparr>)"
    let ?t = "time_Now env (trace w @ [DbGet ident,
        TaglibWriteTag (filepath_Join env (LibraryPath mf) (Path mf)) ''MOOD'' val])"
    from h ok mf have r: "i = ident \<and> v = val \<and> rows w' = put_row (?mf\<lparr>UpdatedAt := ?t\<rparr>) (rows w)"
      by (auto simp add: setMood_def ds_Get_def ds_Put_def WriteTag_def emit_def Let_def
          split: if_splits option.splits)
    have "ID (?mf\<lparr>UpdatedAt := ?t\<rparr>) = ident"
      using idmf by simp
    with find_put_row [of "?mf\<lparr>UpdatedAt := ?t\<rparr>" "rows w"] r
    have "find (\<lambda>r. ID r = ident) (rows w') = Some (?mf\<lparr>UpdatedAt := ?t\<rparr>)"
      by simp
    moreover have "Tags (?mf\<lparr>UpdatedAt := ?t\<rparr>) ''mood'' = (if val = [] then None else Some [val])"
      by simp
    ultimately show "i = ident \<and> v = val
        \<and> (\<exists>mf. find (\<lambda>r. ID r = ident) (rows w') = Some mf
              \<and> Tags mf ''mood'' = (if val = [] then None else Some [val]))"
      using r by blast
  qed
  from E M show ?thesis by (rule conjI)
qed

theorem SetTag_then_read_witness:
  "''high'' \<in> {[], ''low'', ''medium'', ''high''}
   \<and> fst (setEnergy env0 ''s2'' (Some ''high'') world1) = SetEnergyResponse ''s2'' ''high''
   \<and> (\<exists>mf. find (\<lambda>r. ID r = ''s2'') (rows (snd (setEnergy env0 ''s2'' (Some ''high'') world1))) = Some mf
         \<and> Tags mf ''energy'' = Some [''high''])
   \<and> [] \<in> {[], ''negative'', ''neutral'', ''positive''}
   \<and> fst (setMood env0 ''s2'' (Some []) world1) = SetMoodResponse ''s2'' []
   \<and> (\<exists>mf. find (\<lambda>r. ID r = ''s2'') (rows (snd (setMood env0 ''s2'' (Some []) world1))) = Some mf
         \<and> Tags mf ''mood'' = None)"
proof -
  have e: "fst (setEnergy env0 ''s2'' (Some ''high'') world1) = SetEnergyResponse ''s2'' ''high''"
    by (simp add: setEnergy_def validEnergyValues_def ds_Get_def ds_Put_def WriteTag_def emit_def
        Let_def env0_def world1_def song1_def song0_def)
  have m: "fst (setMood env0 ''s2'' (Some []) world1) = SetMoodResponse ''s2'' []"
    by (simp add: setMood_def validMoodValues_def ds_Get_def ds_Put_def WriteTag_def emit_def
        Let_def env0_def world1_def song1_def song0_def)
  have e': "setEnergy env0 ''s2'' (Some ''high'') world1 =
      (SetEnergyResponse ''s2'' ''high'', snd (setEnergy env0 ''s2'' (Some ''high'') world1))"
    by (simp add: prod_eq_iff e)
  have m': "setMood env0 ''s2'' (Some []) world1 =
      (SetMoodResponse ''s2'' [], snd (setMood env0 ''s2'' (Some []) world1))"
    by (simp add: prod_eq_iff m)
  have ve: "''high'' \<in> {[], ''low'', ''medium'', ''high''}"
    and vm: "[] \<in> {[], ''negative'', ''neutral'', ''positive''}"
    by simp_all
  from SetTag_then_read [of "''high''" env0 "''s2''" world1 "''s2''" "''high''"
      "snd (setEnergy env0 ''s2'' (Some ''high'') world1)"] ve e'
  have re: "\<exists>mf. find (\<lambda>r. ID r = ''s2'') (rows (snd (setEnergy env0 ''s2'' (Some ''high'') world1))) = Some mf
         \<and> Tags mf ''energy'' = Some [''high'']"
    by simp
  from SetTag_then_read [of "[]" env0 "''s2''" world1 "''s2''" "[]"
      "snd (setMood env0 ''s2'' (Some []) world1)"] vm m'
  have rm: "\<exists>mf. find (\<lambda>r. ID r = ''s2'') (rows (snd (setMood env0 ''s2'' (Some []) world1))) = Some mf
         \<and> Tags mf ''mood'' = None"
    by simp
  from ve vm e m re rm show ?thesis by blast
qed

section \<open>The skip rule of the track-metrics flow\<close>

lemma hasTrackData_iff:
  "hasTrackData keys \<longleftrightarrow>
     (\<exists>key \<in> set keys. strings_ToLower key \<in> {''energyval'', ''happiness'', ''instrumentalness''})"
  by (induction keys) (auto simp add: Let_def)

lemma processSong_fetch_not_skipped: "\<not> skipped (fst (processSong_fetch env song p w))"
  using processSong_fetch_result [of env song p w] by auto

text \<open>
  C2, as the specification states it, fails: a file that carries the tag \<open>energyval\<close>
  alone, fewer than all three metric tags, is counted as skipped and no fetch is made.
\<close>

theorem processSong_skip_counterexample:
  "taglib_Read env_partial (trace world0) (AbsolutePath env_partial song0) =
     Some [(''energyval'', [''72''])]
   \<and> \<not> carriesAllMetricTags (map fst [(''energyval'', [''72''])])
   \<and> processSong env_partial song0 world0 =
       (\<lparr>fetched = False, failed = False, skipped = True\<rparr>,
        world0\<lparr>trace := [TaglibRead ''/music/a.mp3'']\<rparr>)"
  by (simp add: carriesAllMetricTags_def processSong_def Read_def emit_def Let_def
      strings_ToLower_def toLower_byte_def env_partial_def env0_def world0_def song0_def)

text \<open>
  C2, amended. In the track-metrics flow a member file is counted as skipped exactly when
  its tags can be read and at least one key is, in lower case, \<open>energyval\<close>,
  \<open>happiness\<close> or \<open>instrumentalness\<close>; every other file proceeds to the provider
  fetch.
\<close>

theorem processSong_skip_rule:
  "processSong env song w =
     (if (\<exists>tags. taglib_Read env (trace w) (AbsolutePath env song) = Some tags
            \<and> (\<exists>key \<in> set (map fst tags).
                  strings_ToLower key \<in> {''energyval'', ''happiness'', ''instrumentalness''}))
      then (\<lparr>fetched = False, failed = False, skipped = True\<rparr>,
            emit (TaglibRead (AbsolutePath env song)) w)
      else processSong_fetch env song (AbsolutePath env song)
             (emit (TaglibRead (AbsolutePath env song)) w))
   \<and> skipped (fst (processSong env song w)) =
       (\<exists>tags. taglib_Read env (trace w) (AbsolutePath env song) = Some tags
            \<and> (\<exists>key \<in> set (map fst tags).
                  strings_ToLower key \<in> {''energyval'', ''happiness'', ''instrumentalness''}))"
proof -
  let ?p = "AbsolutePath env song"
  let ?any = "\<exists>tags. taglib_Read env (trace w) ?p = Some tags
            \<and> (\<exists>key \<in> set (map fst tags).
                  strings_ToLower key \<in> {''energyval'', ''happiness'', ''instrumentalness''})"
  have eq: "processSong env song w =
     (if ?any then (\<lparr>fetched = False, failed = False, skipped = True\<rparr>, emit (TaglibRead ?p) w)
      else processSong_fetch env song ?p (emit (TaglibRead ?p) w))"
  proof (cases "taglib_Read env (trace w) ?p")
    case None
    then show ?thesis by (simp add: processSong_def Read_def Let_def)
  next
    case (Some tags)
    then show ?thesis
      using hasTrackData_iff [of "map fst tags"]
      by (simp add: processSong_def Read_def Let_def)
  qed
  have "skipped (fst (processSong env song w)) = ?any"
    by (subst eq) (simp add: processSong_fetch_not_skipped)
  with eq show ?thesis by (rule conjI)
qed

section \<open>What counts as fetched\<close>

lemma FetchTrackData_env0:
  "getAPIKey env = ''key'' \<Longrightarrow>
   client_Do env = (\<lambda>h a t. Response 200 (Some \<lparr>EnergyVal = 72, Happiness = 40, Instrumentalness = 3\<rparr>)) \<Longrightarrow>
   FetchTrackData env ''Artist'' ''Title'' w =
     (Inr \<lparr>EnergyVal = 72, Happiness = 40, Instrumentalness = 3\<rparr>,
      w\<lparr>trace := trace w @ [HttpGet ''Artist'' ''Title'']\<rparr>)"
  by (simp add: FetchTrackData_def Let_def emit_def retryLoop.simps [of _ _ _ 0] maxRetries_def)

lemma Sprintf_d_examples: "Sprintf_d 72 = ''72''" "Sprintf_d 40 = ''40''" "Sprintf_d 3 = ''3''"
  by (simp_all add: Sprintf_d_def nat_digits.simps)

text \<open>
  C3, as the specification states it, fails. In the track-metrics flow a file whose fetch
  and three tag writes succeed is counted as fetched although no record is persisted: the
  rows are unchanged and the trace has no \<open>Put\<close>. In the lyrics flow a file is counted
  as fetched although the write of the lyrics to the audio file failed.
\<close>

theorem fetched_without_persist_counterexample:
  "processSong env0 song0 world0 =
     (\<lparr>fetched = True, failed = False, skipped = False\<rparr>,
      world0\<lparr>trace := [TaglibRead ''/music/a.mp3'', HttpGet ''Artist'' ''Title'',
          TaglibWriteTag ''/music/a.mp3'' ''ENERGYVAL'' ''72'',
          TaglibWriteTag ''/music/a.mp3'' ''HAPPINESS'' ''40'',
          TaglibWriteTag ''/music/a.mp3'' ''INSTRUMENTALNESS'' ''3'']\<rparr>)
   \<and> rows (snd (processSong env0 song0 world0)) = rows world0
   \<and> dbPuts (trace (snd (processSong env0 song0 world0))) = []
   \<and> taglib_WriteLyrics env_lyrics_readonly
         [TaglibRead ''/music/a.mp3'', GeniusExec ''Artist'' ''Title'']
         ''/music/a.mp3'' ''xxx'' ''la la'' = Some ''file is read-only: /music/a.mp3''
   \<and> Fetched (fst (fetchLyrics_song env_lyrics_readonly song0 resp0 world0)) = 1
   \<and> trace (snd (fetchLyrics_song env_lyrics_readonly song0 resp0 world0)) =
        [TaglibRead ''/music/a.mp3'', GeniusExec ''Artist'' ''Title'',
         TaglibWriteLyrics ''/music/a.mp3'' ''xxx'' ''la la'', DbPut ''s1'']"
proof -
  have a: "processSong env0 song0 world0 =
     (\<lparr>fetched = True, failed = False, skipped = False\<rparr>,
      world0\<lparr>trace := [TaglibRead ''/music/a.mp3'', HttpGet ''Artist'' ''Title'',
          TaglibWriteTag ''/music/a.mp3'' ''ENERGYVAL'' ''72'',
          TaglibWriteTag ''/music/a.mp3'' ''HAPPINESS'' ''40'',
          TaglibWriteTag ''/music/a.mp3'' ''INSTRUMENTALNESS'' ''3'']\<rparr>)"
    by (simp add: processSong_def processSong_fetch_def Read_def Let_def FetchTrackData_env0
        writeTrackDataTags_def WriteTag_def Sprintf_d_examples emit_def
        env0_def song0_def world0_def)
  have b: "fetchLyrics_song env_lyrics_readonly song0 resp0 world0 =
      (resp0\<lparr>Fetched := 1\<rparr>,
       \<lparr>trace = [TaglibRead ''/music/a.mp3'', GeniusExec ''Artist'' ''Title'',
           TaglibWriteLyrics ''/music/a.mp3'' ''xxx'' ''la la'', DbPut ''s1''],
        rows = [song0\<lparr>Lyrics := ''la la''\<rparr>]\<rparr>)"
    by (simp add: fetchLyrics_song_def fetchLyrics_fetch_def FetchFromGenius_def fromGenius_def
        saveLyricsToFile_def WriteLyrics_def Read_def ds_Put_def emit_def Let_def
        env_lyrics_readonly_def env0_def song0_def world0_def resp0_def)
  have c: "taglib_WriteLyrics env_lyrics_readonly
         [TaglibRead ''/music/a.mp3'', GeniusExec ''Artist'' ''Title'']
         ''/music/a.mp3'' ''xxx'' ''la la'' = Some ''file is read-only: /music/a.mp3''"
    by (simp add: env_lyrics_readonly_def)
  show ?thesis
    by (simp add: a b c)
qed

lemma fromGenius_nonempty:
  "fromGenius env song w = (Inr lyricsList, w1) \<Longrightarrow> lyricsList \<noteq> [] \<Longrightarrow>
   \<exists>text. trace w1 = trace w @ [GeniusExec (Artist song) (Title song),
       TaglibWriteLyrics (AbsolutePath env song) ''xxx'' text]
     \<and> rows w1 = rows w"
  by (auto simp add: fromGenius_def saveLyricsToFile_def WriteLyrics_def emit_def Let_def
      split: if_splits option.splits sum.splits prod.splits)

lemma fetchLyrics_fetch_put:
  assumes f: "FetchFromGenius env song w = (Inr lyricsList, w1)" and ne: "lyricsList \<noteq> []"
  shows "(Fetched (fst (fetchLyrics_fetch env song resp w)) = Fetched resp + 1) =
          ((\<exists>js. json_Marshal env lyricsList = Some js) \<and> \<not> ds_Put_err env (trace w1) (ID song))"
    and "json_Marshal env lyricsList = Some js \<Longrightarrow> \<not> ds_Put_err env (trace w1) (ID song) \<Longrightarrow>
           trace (snd (fetchLyrics_fetch env song resp w)) = trace w1 @ [DbPut (ID song)]
           \<and> find (\<lambda>r. ID r = ID song) (rows (snd (fetchLyrics_fetch env song resp w))) =
               Some (song\<lparr>Lyrics := js\<rparr>)"
proof -
  show "(Fetched (fst (fetchLyrics_fetch env song resp w)) = Fetched resp + 1) =
          ((\<exists>js. json_Marshal env lyricsList = Some js) \<and> \<not> ds_Put_err env (trace w1) (ID song))"
    using ne by (auto simp add: fetchLyrics_fetch_def f ds_Put_def Let_def split: option.splits)
next
  assume js: "json_Marshal env lyricsList = Some js" and ok: "\<not> ds_Put_err env (trace w1) (ID song)"
  have "ID (song\<lparr>Lyrics := js\<rparr>) = ID song" by simp
  with find_put_row [of "song\<lparr>Lyrics := js\<rparr>" "rows w1"]
  have "find (\<lambda>r. ID r = ID song) (put_row (song\<lparr>Lyrics := js\<rparr>) (rows w1)) = Some (song\<lparr>Lyrics := js\<rparr>)"
    by simp
  with ne js ok show "trace (snd (fetchLyrics_fetch env song resp w)) = trace w1 @ [DbPut (ID song)]
           \<and> find (\<lambda>r. ID r = ID song) (rows (snd (fetchLyrics_fetch env song resp w))) =
               Some (song\<lparr>Lyrics := js\<rparr>)"
    by (simp add: fetchLyrics_fetch_def f ds_Put_def emit_def Let_def)
qed

lemma processSong_fetch_cases:
  assumes f: "FetchTrackData env (Artist song) (Title song) w = (Inr data, w1)"
  shows "processSong_fetch env song p w =
    (let W1 = TaglibWriteTag p ''ENERGYVAL'' (Sprintf_d (EnergyVal data));
         W2 = TaglibWriteTag p ''HAPPINESS'' (Sprintf_d (Happiness data));
         W3 = TaglibWriteTag p ''INSTRUMENTALNESS'' (Sprintf_d (Instrumentalness data));
         failedR = \<lparr>fetched = False, failed = True, skipped = False\<rparr> in
     if taglib_WriteTag env (trace w1) p ''ENERGYVAL'' (Sprintf_d (EnergyVal data)) \<noteq> None
     then (failedR, w1\<lparr>trace := trace w1 @ [W1]\<rparr>)
     else if taglib_WriteTag env (trace w1 @ [W1]) p ''HAPPINESS'' (Sprintf_d (Happiness data)) \<noteq> None
     then (failedR, w1\<lparr>trace := trace w1 @ [W1, W2]\<rparr>)
     else if taglib_WriteTag env (trace w1 @ [W1, W2]) p ''INSTRUMENTALNESS''
               (Sprintf_d (Instrumentalness data)) \<noteq> None
     then (failedR, w1\<lparr>trace := trace w1 @ [W1, W2, W3]\<rparr>)
     else (\<lparr>fetched = True, failed = False, skipped = False\<rparr>,
           w1\<lparr>trace := trace w1 @ [W1, W2, W3]\<rparr>))"
  by (auto simp add: processSong_fetch_def f writeTrackDataTags_def WriteTag_def emit_def Let_def
      split: option.splits)

text \<open>
  C3, amended. For a non-skipped file whose provider fetch succeeds: in the track-metrics
  flow the tags ENERGYVAL, HAPPINESS and INSTRUMENTALNESS are written to the audio file
  in this order, the first write that fails ends the file as failed, and the file counts
  as fetched only after all three writes have succeeded; in the lyrics flow the provider
  has attempted the write of the lyrics to the audio file (its outcome is ignored), and
  the file counts as fetched exactly when the list is encoded and the \<open>Put\<close> of the
  record with the new lyrics succeeds, which is then the last call and stores that record.
\<close>

theorem fetched_after_writes:
  "(FetchTrackData env (Artist song) (Title song) w = (Inr data, w1) \<longrightarrow>
      prefix (trace w1 @ [TaglibWriteTag p ''ENERGYVAL'' (Sprintf_d (EnergyVal data))]) (trace (snd (processSong_fetch env song p w)))
      \<and> (taglib_WriteTag env (trace w1) p ''ENERGYVAL'' (Sprintf_d (EnergyVal data)) \<noteq> None \<longrightarrow>
           processSong_fetch env song p w =
             (\<lparr>fetched = False, failed = True, skipped = False\<rparr>,
              w1\<lparr>trace := trace w1 @ [TaglibWriteTag p ''ENERGYVAL'' (Sprintf_d (EnergyVal data))]\<rparr>))
      \<and> (taglib_WriteTag env (trace w1) p ''ENERGYVAL'' (Sprintf_d (EnergyVal data)) = None \<longrightarrow>
           prefix (trace w1 @ [TaglibWriteTag p ''ENERGYVAL'' (Sprintf_d (EnergyVal data)),
                     TaglibWriteTag p ''HAPPINESS'' (Sprintf_d (Happiness data))])
             (trace (snd (processSong_fetch env song p w))))
      \<and> (taglib_WriteTag env (trace w1) p ''ENERGYVAL'' (Sprintf_d (EnergyVal data)) = None
           \<and> taglib_WriteTag env (trace w1 @ [TaglibWriteTag p ''ENERGYVAL'' (Sprintf_d (EnergyVal data))])
              p ''HAPPINESS'' (Sprintf_d (Happiness data)) \<noteq> None \<longrightarrow>
           processSong_fetch env song p w =
             (\<lparr>fetched = False, failed = True, skipped = False\<rparr>,
              w1\<lparr>trace := trace w1 @ [TaglibWriteTag p ''ENERGYVAL'' (Sprintf_d (EnergyVal data)),
                     TaglibWriteTag p ''HAPPINESS'' (Sprintf_d (Happiness data))]\<rparr>))
      \<and> (taglib_WriteTag env (trace w1) p ''ENERGYVAL'' (Sprintf_d (EnergyVal data)) = None
           \<and> taglib_WriteTag env (trace w1 @ [TaglibWriteTag p ''ENERGYVAL'' (Sprintf_d (EnergyVal data))])
              p ''HAPPINESS'' (Sprintf_d (Happiness data)) = None \<longrightarrow>
           prefix (trace w1 @ [TaglibWriteTag p ''ENERGYVAL'' (Sprintf_d (EnergyVal data)),
                     TaglibWriteTag p ''HAPPINESS'' (Sprintf_d (Happiness data)),
                     TaglibWriteTag p ''INSTRUMENTALNESS'' (Sprintf_d (Instrumentalness data))])
             (trace (snd (processSong_fetch env song p w))))
      \<and> (taglib_WriteTag env (trace w1) p ''ENERGYVAL'' (Sprintf_d (EnergyVal data)) = None
           \<and> taglib_WriteTag env (trace w1 @ [TaglibWriteTag p ''ENERGYVAL'' (Sprintf_d (EnergyVal data))])
              p ''HAPPINESS'' (Sprintf_d (Happiness data)) = None
           \<and> taglib_WriteTag env (trace w1 @ [TaglibWriteTag p ''ENERGYVAL'' (Sprintf_d (EnergyVal data)),
                TaglibWriteTag p ''HAPPINESS'' (Sprintf_d (Happiness data))])
              p ''INSTRUMENTALNESS'' (Sprintf_d (Instrumentalness data)) \<noteq> None \<longrightarrow>
           processSong_fetch env song p w =
             (\<lparr>fetched = False, failed = True, skipped = False\<rparr>,
              w1\<lparr>trace := trace w1 @ [TaglibWriteTag p ''ENERGYVAL'' (Sprintf_d (EnergyVal data)),
                     TaglibWriteTag p ''HAPPINESS'' (Sprintf_d (Happiness data)),
                     TaglibWriteTag p ''INSTRUMENTALNESS'' (Sprintf_d (Instrumentalness data))]\<rparr>))
      \<and> (fetched (fst (processSong_fetch env song p w)) \<longrightarrow>
           taglib_WriteTag env (trace w1) p ''ENERGYVAL'' (Sprintf_d (EnergyVal data)) = None
           \<and> taglib_WriteTag env (trace w1 @ [TaglibWriteTag p ''ENERGYVAL'' (Sprintf_d (EnergyVal data))])
              p ''HAPPINESS'' (Sprintf_d (Happiness data)) = None
           \<and> taglib_WriteTag env (trace w1 @ [TaglibWriteTag p ''ENERGYVAL'' (Sprintf_d (EnergyVal data)),
                TaglibWriteTag p ''HAPPINESS'' (Sprintf_d (Happiness data))])
              p ''INSTRUMENTALNESS'' (Sprintf_d (Instrumentalness data)) = None))
   \<and> (FetchFromGenius env song w = (Inr lyricsList, w1) \<and> lyricsList \<noteq> [] \<longrightarrow>
      (\<exists>text. trace w1 = trace w @ [GeniusExec (Artist song) (Title song),
                  TaglibWriteLyrics (AbsolutePath env song) ''xxx'' text])
      \<and> (Fetched (fst (fetchLyrics_fetch env song resp w)) = Fetched resp + 1) =
          ((\<exists>js. json_Marshal env lyricsList = Some js) \<and> \<not> ds_Put_err env (trace w1) (ID song))
      \<and> (\<forall>js. json_Marshal env lyricsList = Some js \<and> \<not> ds_Put_err env (trace w1) (ID song) \<longrightarrow>
           trace (snd (fetchLyrics_fetch env song resp w)) = trace w1 @ [DbPut (ID song)]
           \<and> find (\<lambda>r. ID r = ID song) (rows (snd (fetchLyrics_fetch env song resp w))) =
               Some (song\<lparr>Lyrics := js\<rparr>)))"
proof -
  have A: "FetchTrackData env (Artist song) (Title song) w = (Inr data, w1) \<longrightarrow>
      prefix (trace w1 @ [TaglibWriteTag p ''ENERGYVAL'' (Sprintf_d (EnergyVal data))]) (trace (snd (processSong_fetch env song p w)))
      \<and> (taglib_WriteTag env (trace w1) p ''ENERGYVAL'' (Sprintf_d (EnergyVal data)) \<noteq> None \<longrightarrow>
           processSong_fetch env song p w =
             (\<lparr>fetched = False, failed = True, skipped = False\<rparr>,
              w1\<lparr>trace := trace w1 @ [TaglibWriteTag p ''ENERGYVAL'' (Sprintf_d (EnergyVal data))]\<rparr>))
      \<and> (taglib_WriteTag env (trace w1) p ''ENERGYVAL'' (Sprintf_d (EnergyVal data)) = None \<longrightarrow>
           prefix (trace w1 @ [TaglibWriteTag p ''ENERGYVAL'' (Sprintf_d (EnergyVal data)),
                     TaglibWriteTag p ''HAPPINESS'' (Sprintf_d (Happiness data))])
             (trace (snd (processSong_fetch env song p w))))
      \<and> (taglib_WriteTag env (trace w1) p ''ENERGYVAL'' (Sprintf_d (EnergyVal data)) = None
           \<and> taglib_WriteTag env (trace w1 @ [TaglibWriteTag p ''ENERGYVAL'' (Sprintf_d (EnergyVal data))])
              p ''HAPPINESS'' (Sprintf_d (Happiness data)) \<noteq> None \<longrightarrow>
           processSong_fetch env song p w =
             (\<lparr>fetched = False, failed = True, skipped = False\<rparr>,
              w1\<lparr>trace := trace w1 @ [TaglibWriteTag p ''ENERGYVAL'' (Sprintf_d (EnergyVal data)),
                     TaglibWriteTag p ''HAPPINESS'' (Sprintf_d (Happiness data))]\<rparr>))
      \<and> (taglib_WriteTag env (trace w1) p ''ENERGYVAL'' (Sprintf_d (EnergyVal data)) = None
           \<and> taglib_WriteTag env (trace w1 @ [TaglibWriteTag p ''ENERGYVAL'' (Sprintf_d (EnergyVal data))])
              p ''HAPPINESS'' (Sprintf_d (Happiness data)) = None \<longrightarrow>
           prefix (trace w1 @ [TaglibWriteTag p ''ENERGYVAL'' (Sprintf_d (EnergyVal data)),
                     TaglibWriteTag p ''HAPPINESS'' (Sprintf_d (Happiness data)),
                     TaglibWriteTag p ''INSTRUMENTALNESS'' (Sprintf_d (Instrumentalness data))])
             (trace (snd (processSong_fetch env song p w))))
      \<and> (taglib_WriteTag env (trace w1) p ''ENERGYVAL'' (Sprintf_d (EnergyVal data)) = None
           \<and> taglib_WriteTag env (trace w1 @ [TaglibWriteTag p ''ENERGYVAL'' (Sprintf_d (EnergyVal data))])
              p ''HAPPINESS'' (Sprintf_d (Happiness data)) = None
           \<and> taglib_WriteTag env (trace w1 @ [TaglibWriteTag p ''ENERGYVAL'' (Sprintf_d (EnergyVal data)),
                TaglibWriteTag p ''HAPPINESS'' (Sprintf_d (Happiness data))])
              p ''INSTRUMENTALNESS'' (Sprintf_d (Instrumentalness data)) \<noteq> None \<longrightarrow>
           processSong_fetch env song p w =
             (\<lparr>fetched = False, failed = True, skipped = False\<rparr>,
              w1\<lparr>trace := trace w1 @ [TaglibWriteTag p ''ENERGYVAL'' (Sprintf_d (EnergyVal data)),
                     TaglibWriteTag p ''HAPPINESS'' (Sprintf_d (Happiness data)),
                     TaglibWriteTag p ''INSTRUMENTALNESS'' (Sprintf_d (Instrumentalness data))]\<rparr>))
      \<and> (fetched (fst (processSong_fetch env song p w)) \<longrightarrow>
           taglib_WriteTag env (trace w1) p ''ENERGYVAL'' (Sprintf_d (EnergyVal data)) = None
           \<and> taglib_WriteTag env (trace w1 @ [TaglibWriteTag p ''ENERGYVAL'' (Sprintf_d (EnergyVal data))])
              p ''HAPPINESS'' (Sprintf_d (Happiness data)) = None
           \<and> taglib_WriteTag env (trace w1 @ [TaglibWriteTag p ''ENERGYVAL'' (Sprintf_d (EnergyVal data)),
                TaglibWriteTag p ''HAPPINESS'' (Sprintf_d (Happiness data))])
              p ''INSTRUMENTALNESS'' (Sprintf_d (Instrumentalness data)) = None)"
  proof
    assume f: "FetchTrackData env (Artist song) (Title song) w = (Inr data, w1)"
    show "prefix (trace w1 @ [TaglibWriteTag p ''ENERGYVAL'' (Sprintf_d (EnergyVal data))]) (trace (snd (processSong_fetch env song p w)))
      \<and> (taglib_WriteTag env (trace w1) p ''ENERGYVAL'' (Sprintf_d (EnergyVal data)) \<noteq> None \<longrightarrow>
           processSong_fetch env song p w =
             (\<lparr>fetched = False, failed = True, skipped = False\<rparr>,
              w1\<lparr>trace := trace w1 @ [TaglibWriteTag p ''ENERGYVAL'' (Sprintf_d (EnergyVal data))]\<rparr>))
      \<and> (taglib_WriteTag env (trace w1) p ''ENERGYVAL'' (Sprintf_d (EnergyVal data)) = None \<longrightarrow>
           prefix (trace w1 @ [TaglibWriteTag p ''ENERGYVAL'' (Sprintf_d (EnergyVal data)),
                     TaglibWriteTag p ''HAPPINESS'' (Sprintf_d (Happiness data))])
             (trace (snd (processSong_fetch env song p w))))
      \<and> (taglib_WriteTag env (trace w1) p ''ENERGYVAL'' (Sprintf_d (EnergyVal data)) = None
           \<and> taglib_WriteTag env (trace w1 @ [TaglibWriteTag p ''ENERGYVAL'' (Sprintf_d (EnergyVal data))])
              p ''HAPPINESS'' (Sprintf_d (Happiness data)) \<noteq> None \<longrightarrow>
           processSong_fetch env song p w =
             (\<lparr>fetched = False, failed = True, skipped = False\<rparr>,
              w1\<lparr>trace := trace w1 @ [TaglibWriteTag p ''ENERGYVAL'' (Sprintf_d (EnergyVal data)),
                     TaglibWriteTag p ''HAPPINESS'' (Sprintf_d (Happiness data))]\<rparr>))
      \<and> (taglib_WriteTag env (trace w1) p ''ENERGYVAL'' (Sprintf_d (EnergyVal data)) = None
           \<and> taglib_WriteTag env (trace w1 @ [TaglibWriteTag p ''ENERGYVAL'' (Sprintf_d (EnergyVal data))])
              p ''HAPPINESS'' (Sprintf_d (Happiness data)) = None \<longrightarrow>
           prefix (trace w1 @ [TaglibWriteTag p ''ENERGYVAL'' (Sprintf_d (EnergyVal data)),
                     TaglibWriteTag p ''HAPPINESS'' (Sprintf_d (Happiness data)),
                     TaglibWriteTag p ''INSTRUMENTALNESS'' (Sprintf_d (Instrumentalness data))])
             (trace (snd (processSong_fetch env song p w))))
      \<and> (taglib_WriteTag env (trace w1) p ''ENERGYVAL'' (Sprintf_d (EnergyVal data)) = None
           \<and> taglib_WriteTag env (trace w1 @ [TaglibWriteTag p ''ENERGYVAL'' (Sprintf_d (EnergyVal data))])
              p ''HAPPINESS'' (Sprintf_d (Happiness data)) = None
           \<and> taglib_WriteTag env (trace w1 @ [TaglibWriteTag p ''ENERGYVAL'' (Sprintf_d (EnergyVal data)),
                TaglibWriteTag p ''HAPPINESS'' (Sprintf_d (Happiness data))])
              p ''INSTRUMENTALNESS'' (Sprintf_d (Instrumentalness data)) \<noteq> None \<longrightarrow>
           processSong_fetch env song p w =
             (\<lparr>fetched = False, failed = True, skipped = False\<rparr>,
              w1\<lparr>trace := trace w1 @ [TaglibWriteTag p ''ENERGYVAL'' (Sprintf_d (EnergyVal data)),
                     TaglibWriteTag p ''HAPPINESS'' (Sprintf_d (Happiness data)),
                     TaglibWriteTag p ''INSTRUMENTALNESS'' (Sprintf_d (Instrumentalness data))]\<rparr>))
      \<and> (fetched (fst (processSong_fetch env song p w)) \<longrightarrow>
           taglib_WriteTag env (trace w1) p ''ENERGYVAL'' (Sprintf_d (EnergyVal data)) = None
           \<and> taglib_WriteTag env (trace w1 @ [TaglibWriteTag p ''ENERGYVAL'' (Sprintf_d (EnergyVal data))])
              p ''HAPPINESS'' (Sprintf_d (Happiness data)) = None
           \<and> taglib_WriteTag env (trace w1 @ [TaglibWriteTag p ''ENERGYVAL'' (Sprintf_d (EnergyVal data)),
                TaglibWriteTag p ''HAPPINESS'' (Sprintf_d (Happiness data))])
              p ''INSTRUMENTALNESS'' (Sprintf_d (Instrumentalness data)) = None)"
      unfolding processSong_fetch_cases [OF f] Let_def
      by (simp add: prefix_def)
  qed
  have B: "FetchFromGenius env song w = (Inr lyricsList, w1) \<and> lyricsList \<noteq> [] \<longrightarrow>
      (\<exists>text. trace w1 = trace w @ [GeniusExec (Artist song) (Title song),
                  TaglibWriteLyrics (AbsolutePath env song) ''xxx'' text])
      \<and> (Fetched (fst (fetchLyrics_fetch env song resp w)) = Fetched resp + 1) =
          ((\<exists>js. json_Marshal env lyricsList = Some js) \<and> \<not> ds_Put_err env (trace w1) (ID song))
      \<and> (\<forall>js. json_Marshal env lyricsList = Some js \<and> \<not> ds_Put_err env (trace w1) (ID song) \<longrightarrow>
           trace (snd (fetchLyrics_fetch env song resp w)) = trace w1 @ [DbPut (ID song)]
           \<and> find (\<lambda>r. ID r = ID song) (rows (snd (fetchLyrics_fetch env song resp w))) =
               Some (song\<lparr>Lyrics := js\<rparr>))"
  proof (intro impI, elim conjE)
    assume f: "FetchFromGenius env song w = (Inr lyricsList, w1)" and ne: "lyricsList \<noteq> []"
    from f have "fromGenius env song w = (Inr lyricsList, w1)"
      by (simp add: FetchFromGenius_def)
    from fromGenius_nonempty [OF this ne]
    have t: "\<exists>text. trace w1 = trace w @ [GeniusExec (Artist song) (Title song),
                  TaglibWriteLyrics (AbsolutePath env song) ''xxx'' text]"
      by blast
    from t fetchLyrics_fetch_put(1) [OF f ne, of resp] fetchLyrics_fetch_put(2) [OF f ne, of _ resp]
    show "(\<exists>text. trace w1 = trace w @ [GeniusExec (Artist song) (Title song),
                  TaglibWriteLyrics (AbsolutePath env song) ''xxx'' text])
      \<and> (Fetched (fst (fetchLyrics_fetch env song resp w)) = Fetched resp + 1) =
          ((\<exists>js. json_Marshal env lyricsList = Some js) \<and> \<not> ds_Put_err env (trace w1) (ID song))
      \<and> (\<forall>js. json_Marshal env lyricsList = Some js \<and> \<not> ds_Put_err env (trace w1) (ID song) \<longrightarrow>
           trace (snd (fetchLyrics_fetch env song resp w)) = trace w1 @ [DbPut (ID song)]
           \<and> find (\<lambda>r. ID r = ID song) (rows (snd (fetchLyrics_fetch env song resp w))) =
               Some (song\<lparr>Lyrics := js\<rparr>))"
      by blast
  qed
  from A B show ?thesis by (rule conjI)
qed

theorem fetched_after_writes_witness:
  "FetchTrackData env0 (Artist song0) (Title song0) world0 =
     (Inr \<lparr>EnergyVal = 72, Happiness = 40, Instrumentalness = 3\<rparr>,
      world0\<lparr>trace := [HttpGet ''Artist'' ''Title'']\<rparr>)
   \<and> fetched (fst (processSong_fetch env0 song0 ''/music/a.mp3'' world0))
   \<and> prefix [HttpGet ''Artist'' ''Title'',
        TaglibWriteTag ''/music/a.mp3'' ''ENERGYVAL'' ''72'',
        TaglibWriteTag ''/music/a.mp3'' ''HAPPINESS'' ''40'',
        TaglibWriteTag ''/music/a.mp3'' ''INSTRUMENTALNESS'' ''3'']
       (trace (snd (processSong_fetch env0 song0 ''/music/a.mp3'' world0)))
   \<and> FetchTrackData (env_write_fails ''HAPPINESS'') (Artist song0) (Title song0) world0 =
     (Inr \<lparr>EnergyVal = 72, Happiness = 40, Instrumentalness = 3\<rparr>,
      world0\<lparr>trace := [HttpGet ''Artist'' ''Title'']\<rparr>)
   \<and> taglib_WriteTag (env_write_fails ''HAPPINESS'')
        [HttpGet ''Artist'' ''Title''] ''/music/a.mp3'' ''ENERGYVAL'' ''72'' = None
   \<and> taglib_WriteTag (env_write_fails ''HAPPINESS'')
        [HttpGet ''Artist'' ''Title'', TaglibWriteTag ''/music/a.mp3'' ''ENERGYVAL'' ''72'']
        ''/music/a.mp3'' ''HAPPINESS'' ''40'' = Some ''failed to save file: /music/a.mp3''
   \<and> processSong_fetch (env_write_fails ''HAPPINESS'') song0 ''/music/a.mp3'' world0 =
       (\<lparr>fetched = False, failed = True, skipped = False\<rparr>,
        world0\<lparr>trace := [HttpGet ''Artist'' ''Title'',
          TaglibWriteTag ''/music/a.mp3'' ''ENERGYVAL'' ''72'',
          TaglibWriteTag ''/music/a.mp3'' ''HAPPINESS'' ''40'']\<rparr>)
   \<and> FetchFromGenius env0 song0 world0 =
       (Inr [''la la''],
        world0\<lparr>trace := [GeniusExec ''Artist'' ''Title'',
                          TaglibWriteLyrics ''/music/a.mp3'' ''xxx'' ''la la'']\<rparr>)
   \<and> [''la la''] \<noteq> []
   \<and> Fetched (fst (fetchLyrics_fetch env0 song0 resp0 world0)) = Fetched resp0 + 1
   \<and> trace (snd (fetchLyrics_fetch env0 song0 resp0 world0)) =
       [GeniusExec ''Artist'' ''Title'', TaglibWriteLyrics ''/music/a.mp3'' ''xxx'' ''la la'',
        DbPut ''s1'']
   \<and> find (\<lambda>r. ID r = ''s1'') (rows (snd (fetchLyrics_fetch env0 song0 resp0 world0))) =
       Some (song0\<lparr>Lyrics := ''la la''\<rparr>)"
proof -
  let ?d = "\<lparr>EnergyVal = 72, Happiness = 40, Instrumentalness = 3\<rparr>"
  let ?w1 = "world0\<lparr>trace := [HttpGet ''Artist'' ''Title'']\<rparr>"
  have f: "FetchTrackData env0 (Artist song0) (Title song0) world0 = (Inr ?d, ?w1)"
    by (simp add: FetchTrackData_env0 env0_def song0_def world0_def)
  have f': "FetchTrackData (env_write_fails ''HAPPINESS'') (Artist song0) (Title song0) world0 =
      (Inr ?d, ?w1)"
    by (simp add: FetchTrackData_env0 env_write_fails_def env0_def song0_def world0_def)
  have g: "FetchFromGenius env0 song0 world0 =
       (Inr [''la la''],
        world0\<lparr>trace := [GeniusExec ''Artist'' ''Title'',
                          TaglibWriteLyrics ''/music/a.mp3'' ''xxx'' ''la la'']\<rparr>)"
    by (simp add: FetchFromGenius_def fromGenius_def saveLyricsToFile_def WriteLyrics_def
        emit_def Let_def env0_def song0_def world0_def)
  have ne: "[''la la''] \<noteq> []" by simp
  have w: "taglib_WriteTag env0 = (\<lambda>h p n v. None)" "json_Marshal env0 [''la la''] = Some ''la la''"
    "\<And>h i. \<not> ds_Put_err env0 h i" "ID song0 = ''s1''" "trace ?w1 = [HttpGet ''Artist'' ''Title'']"
    by (simp_all add: env0_def song0_def)
  have o: "taglib_WriteTag (env_write_fails ''HAPPINESS'')
        [HttpGet ''Artist'' ''Title''] ''/music/a.mp3'' ''ENERGYVAL'' ''72'' = None"
    "taglib_WriteTag (env_write_fails ''HAPPINESS'')
        [HttpGet ''Artist'' ''Title'', TaglibWriteTag ''/music/a.mp3'' ''ENERGYVAL'' ''72'']
        ''/music/a.mp3'' ''HAPPINESS'' ''40'' = Some ''failed to save file: /music/a.mp3''"
    by (simp_all add: env_write_fails_def)
  have a: "fetched (fst (processSong_fetch env0 song0 ''/music/a.mp3'' world0))"
    by (simp add: processSong_fetch_cases [OF f] w Let_def)
  note T = fetched_after_writes [of env0 song0 world0 ?d ?w1 "''/music/a.mp3''" "[''la la'']" resp0]
  from mp [OF conjunct1 [OF T] f]
  have b: "prefix [HttpGet ''Artist'' ''Title'',
        TaglibWriteTag ''/music/a.mp3'' ''ENERGYVAL'' ''72'',
        TaglibWriteTag ''/music/a.mp3'' ''HAPPINESS'' ''40'',
        TaglibWriteTag ''/music/a.mp3'' ''INSTRUMENTALNESS'' ''3'']
       (trace (snd (processSong_fetch env0 song0 ''/music/a.mp3'' world0)))"
    by (simp add: w Sprintf_d_examples)
  note T' = fetched_after_writes [of "env_write_fails ''HAPPINESS''" song0 world0 ?d ?w1
      "''/music/a.mp3''" "[''la la'']" resp0]
  from mp [OF conjunct1 [OF T'] f'] o
  have c: "processSong_fetch (env_write_fails ''HAPPINESS'') song0 ''/music/a.mp3'' world0 =
       (\<lparr>fetched = False, failed = True, skipped = False\<rparr>,
        world0\<lparr>trace := [HttpGet ''Artist'' ''Title'',
          TaglibWriteTag ''/music/a.mp3'' ''ENERGYVAL'' ''72'',
          TaglibWriteTag ''/music/a.mp3'' ''HAPPINESS'' ''40'']\<rparr>)"
    by (simp add: w(5) Sprintf_d_examples)
  note U = fetched_after_writes [of env0 song0 world0 ?d
      "world0\<lparr>trace := [GeniusExec ''Artist'' ''Title'',
                          TaglibWriteLyrics ''/music/a.mp3'' ''xxx'' ''la la'']\<rparr>" "''/music/a.mp3''"
      "[''la la'']" resp0]
  from mp [OF conjunct2 [OF U] conjI [OF g ne]]
  have d: "Fetched (fst (fetchLyrics_fetch env0 song0 resp0 world0)) = Fetched resp0 + 1"
    and e: "trace (snd (fetchLyrics_fetch env0 song0 resp0 world0)) =
       [GeniusExec ''Artist'' ''Title'', TaglibWriteLyrics ''/music/a.mp3'' ''xxx'' ''la la'',
        DbPut ''s1'']"
    and h: "find (\<lambda>r. ID r = ''s1'') (rows (snd (fetchLyrics_fetch env0 song0 resp0 world0))) =
       Some (song0\<lparr>Lyrics := ''la la''\<rparr>)"
    by (simp_all add: w)
  from f a b f' o c g ne d e h show ?thesis by blast
qed

section \<open>The skip rule of the lyrics flow\<close>

lemma ToLower_lyrics_prefix:
  "prefix ''lyrics:'' key \<Longrightarrow> prefix ''lyrics:'' (strings_ToLower key)"
proof -
  assume "prefix ''lyrics:'' key"
  then have "prefix (map toLower_byte ''lyrics:'') (map toLower_byte key)"
    by (rule map_mono_prefix)
  moreover have "map toLower_byte ''lyrics:'' = ''lyrics:''"
    by (simp add: toLower_byte_def)
  ultimately show ?thesis by (simp add: strings_ToLower_def)
qed

lemma hasCorrectlyStoredLyrics_iff:
  "hasCorrectlyStoredLyrics keys \<longleftrightarrow> (\<exists>key \<in> set keys. prefix ''lyrics:'' (strings_ToLower key))"
  by (induction keys) (auto simp add: Let_def strings_HasPrefix_def)

lemma append_value_key: "k \<in> set (map fst (append_value k v m))"
  by (induction m) (auto simp add: rev_image_eqI)

lemma goPutLyrics_key:
  "strings_ToLower (''lyrics:'' @ lang) \<in> set (map fst (goPutLyrics TrimSpace lang val m))
   \<and> prefix ''lyrics:'' (strings_ToLower (''lyrics:'' @ lang))"
proof
  show "strings_ToLower (''lyrics:'' @ lang) \<in> set (map fst (goPutLyrics TrimSpace lang val m))"
    using append_value_key [of "strings_ToLower (''lyrics:'' @ lang)" "TrimSpace val" m]
    by (simp add: goPutLyrics_def doPutTag_def Let_def)
  show "prefix ''lyrics:'' (strings_ToLower (''lyrics:'' @ lang))"
    by (rule ToLower_lyrics_prefix) simp
qed

text \<open>
  C9. In the lyrics flow a member file whose tags can be read and hold a key that begins
  with "lyrics:" is counted as skipped, and the read is the only call made for it: the
  lyrics provider is not invoked, whatever it would return. Such a key is what
  \<open>goPutLyrics\<close> files lyrics under.
\<close>

theorem lyrics_already_stored_skipped:
  "(taglib_Read env (trace w) (AbsolutePath env song) = Some tags
      \<and> key \<in> set (map fst tags) \<and> prefix ''lyrics:'' key \<longrightarrow>
      fetchLyrics_song env song resp w =
        (resp\<lparr>Skipped := Skipped resp + 1\<rparr>,
         w\<lparr>trace := trace w @ [TaglibRead (AbsolutePath env song)]\<rparr>))
   \<and> (\<exists>key \<in> set (map fst (goPutLyrics TrimSpace lang val m)). prefix ''lyrics:'' key)"
proof
  show "taglib_Read env (trace w) (AbsolutePath env song) = Some tags
      \<and> key \<in> set (map fst tags) \<and> prefix ''lyrics:'' key \<longrightarrow>
      fetchLyrics_song env song resp w =
        (resp\<lparr>Skipped := Skipped resp + 1\<rparr>,
         w\<lparr>trace := trace w @ [TaglibRead (AbsolutePath env song)]\<rparr>)"
  proof (intro impI, elim conjE)
    assume r: "taglib_Read env (trace w) (AbsolutePath env song) = Some tags"
      and k: "key \<in> set (map fst tags)" and p: "prefix ''lyrics:'' key"
    from k p have "hasCorrectlyStoredLyrics (map fst tags)"
      unfolding hasCorrectlyStoredLyrics_iff using ToLower_lyrics_prefix by blast
    with r show "fetchLyrics_song env song resp w =
        (resp\<lparr>Skipped := Skipped resp + 1\<rparr>,
         w\<lparr>trace := trace w @ [TaglibRead (AbsolutePath env song)]\<rparr>)"
      by (simp add: fetchLyrics_song_def Read_def emit_def Let_def)
  qed
  show "\<exists>key \<in> set (map fst (goPutLyrics TrimSpace lang val m)). prefix ''lyrics:'' key"
    using goPutLyrics_key [of lang TrimSpace val m] by blast
qed

theorem lyrics_already_stored_skipped_witness:
  "taglib_Read env_has_lyrics (trace world0) (AbsolutePath env_has_lyrics song0) =
     Some [(''title'', [''Title'']), (''lyrics:eng'', [''la la''])]
   \<and> ''lyrics:eng'' \<in> set (map fst [(''title'', [''Title'']), (''lyrics:eng'', [''la la''])])
   \<and> prefix ''lyrics:'' ''lyrics:eng''
   \<and> cmd_Output env_has_lyrics [TaglibRead ''/music/a.mp3''] ''Artist'' ''Title'' = Some ''la la''
   \<and> fetchLyrics_song env_has_lyrics song0 resp0 world0 =
       (resp0\<lparr>Skipped := 1\<rparr>, world0\<lparr>trace := [TaglibRead ''/music/a.mp3'']\<rparr>)"
proof -
  have r: "taglib_Read env_has_lyrics (trace world0) (AbsolutePath env_has_lyrics song0) =
     Some [(''title'', [''Title'']), (''lyrics:eng'', [''la la''])]"
    by (simp add: env_has_lyrics_def)
  have k: "''lyrics:eng'' \<in> set (map fst [(''title'', [''Title'']), (''lyrics:eng'', [''la la''])])"
    and p: "prefix ''lyrics:'' ''lyrics:eng''"
    by simp_all
  have c: "cmd_Output env_has_lyrics [TaglibRead ''/music/a.mp3''] ''Artist'' ''Title'' = Some ''la la''"
    by (simp add: env_has_lyrics_def env0_def)
  have path: "AbsolutePath env_has_lyrics song0 = ''/music/a.mp3''" "trace world0 = []"
    "Skipped resp0 = 0"
    by (simp_all add: env_has_lyrics_def env0_def song0_def world0_def resp0_def)
  from mp [OF conjunct1 [OF lyrics_already_stored_skipped
        [of env_has_lyrics world0 song0 _ "''lyrics:eng''" resp0 id "[]" "[]" "[]"]]
      conjI [OF r conjI [OF k p]]]
  have "fetchLyrics_song env_has_lyrics song0 resp0 world0 =
       (resp0\<lparr>Skipped := 1\<rparr>, world0\<lparr>trace := [TaglibRead ''/music/a.mp3'']\<rparr>)"
    by (simp add: path)
  with r k p c show ?thesis by blast
qed

section \<open>Unreadable tags\<close>

lemma fetchLyrics_fetch_not_skipped:
  "Skipped (fst (fetchLyrics_fetch env song resp w)) = Skipped resp"
proof -
  obtain r w' where "fetchLyrics_fetch env song resp w = (r, w')"
    by (cases "fetchLyrics_fetch env song resp w")
  with fetchLyrics_fetch_counts [OF this] show ?thesis by simp
qed

lemma retryLoop_trace_prefix:
  "retryLoop env artist title attempt resp w = (res, w') \<Longrightarrow> prefix (trace w) (trace w')"
proof (induction env artist title attempt resp w rule: retryLoop.induct)
  case (1 env artist title attempt resp w)
  show ?case
  proof (cases "attempt < maxRetries")
    case False
    with "1.prems" show ?thesis
      by (subst (asm) retryLoop.simps) simp
  next
    case True
    let ?r = "if attempt > 0 then backoffWait env attempt w else (True, w)"
    obtain ok w1 where r: "?r = (ok, w1)" by (cases ?r)
    then have w1: "prefix (trace w) (trace w1)"
      by (auto simp add: backoffWait_def emit_def Let_def split: if_splits)
    show ?thesis
    proof (cases ok)
      case False
      with "1.prems" True r w1 show ?thesis
        by (subst (asm) retryLoop.simps) auto
    next
      case ok: True
      show ?thesis
      proof (cases "client_Do env (trace w1) artist title")
        case TransportError
        with "1.prems" True r ok w1 show ?thesis
          by (subst (asm) retryLoop.simps) (auto simp add: emit_def prefix_order.trans)
      next
        case (Response code body)
        let ?w2 = "emit (HttpGet artist title) w1"
        have w2: "prefix (trace w) (trace ?w2)"
          using w1 by (simp add: emit_def prefix_order.trans)
        show ?thesis
        proof (cases "code \<noteq> 429 \<or> attempt = maxRetries - 1")
          case True
          with "1.prems" \<open>attempt < maxRetries\<close> r ok Response w2 show ?thesis
            by (subst (asm) retryLoop.simps) (auto simp add: Let_def split: if_splits)
        next
          case False
          with "1.prems" \<open>attempt < maxRetries\<close> r ok Response
          have rec: "retryLoop env artist title (attempt + 1) (Some (code, body)) ?w2 = (res, w')"
            by (subst (asm) retryLoop.simps) (simp add: Let_def)
          from False have c: "\<not> code \<noteq> 429" "attempt \<noteq> maxRetries - 1" by auto
          from "1.IH" [OF \<open>attempt < maxRetries\<close> r [symmetric] _ Response refl c rec] ok w2
          show ?thesis using prefix_order.trans by blast
        qed
      qed
    qed
  qed
qed

lemma retryLoop_first_request:
  "prefix (trace w @ [HttpGet artist title]) (trace (snd (retryLoop env artist title 0 None w)))"
proof (cases "client_Do env (trace w) artist title")
  case TransportError
  then show ?thesis
    by (subst retryLoop.simps) (simp add: maxRetries_def emit_def)
next
  case (Response code body)
  show ?thesis
  proof (cases "code = 429")
    case False
    with Response show ?thesis
      by (subst retryLoop.simps) (simp add: maxRetries_def emit_def Let_def)
  next
    case True
    let ?w2 = "emit (HttpGet artist title) w"
    obtain res w' where r: "retryLoop env artist title (0 + 1) (Some (code, body)) ?w2 = (res, w')"
      by (cases "retryLoop env artist title (0 + 1) (Some (code, body)) ?w2")
    from retryLoop_trace_prefix [OF r] have "prefix (trace w @ [HttpGet artist title]) (trace w')"
      by (simp add: emit_def)
    moreover from True Response r have "retryLoop env artist title 0 None w = (res, w')"
      by (subst retryLoop.simps) (simp add: maxRetries_def Let_def)
    ultimately show ?thesis by simp
  qed
qed

lemma FetchTrackData_first_request:
  assumes "getAPIKey env \<noteq> []" "artist \<noteq> []" "title \<noteq> []"
  shows "prefix (trace w @ [HttpGet artist title]) (trace (snd (FetchTrackData env artist title w)))"
proof -
  obtain res w' where r: "retryLoop env artist title 0 None w = (res, w')"
    by (cases "retryLoop env artist title 0 None w")
  with retryLoop_first_request [of w artist title env]
  have "prefix (trace w @ [HttpGet artist title]) (trace w')" by simp
  with assms r show ?thesis
    by (auto simp add: FetchTrackData_def Let_def split: sum.splits option.splits prod.splits)
qed

lemma FetchTrackData_answer:
  assumes "getAPIKey env \<noteq> []" "artist \<noteq> []" "title \<noteq> []"
  shows "client_Do env (trace w) artist title = Response 200 (Some data) \<Longrightarrow>
           FetchTrackData env artist title w = (Inr data, emit (HttpGet artist title) w)"
    and "client_Do env (trace w) artist title = Response 404 body \<Longrightarrow>
           FetchTrackData env artist title w = (Inl ErrTrackNotFound, emit (HttpGet artist title) w)"
  using assms
  by (simp_all add: FetchTrackData_def Let_def retryLoop.simps [of _ _ _ 0] maxRetries_def)

lemma writeTrackDataTags_trace_prefix:
  "prefix (trace w) (trace (snd (writeTrackDataTags env p data w)))"
  by (auto simp add: writeTrackDataTags_def WriteTag_def emit_def split: option.splits)

lemma processSong_fetch_trace_prefix:
  "prefix (trace (snd (FetchTrackData env (Artist song) (Title song) w)))
     (trace (snd (processSong_fetch env song p w)))"
proof (cases "FetchTrackData env (Artist song) (Title song) w")
  case (Pair res w1)
  show ?thesis
  proof (cases res)
    case (Inl e)
    with Pair show ?thesis by (simp add: processSong_fetch_def)
  next
    case (Inr data)
    with Pair writeTrackDataTags_trace_prefix [of w1 env p data] show ?thesis
      by (auto simp add: processSong_fetch_def split: prod.splits option.splits)
  qed
qed

lemma fromGenius_first_call:
  assumes "\<not> geniusCmd_err env" "Artist mf \<noteq> []" "Title mf \<noteq> []"
  shows "prefix (trace w @ [GeniusExec (Artist mf) (Title mf)]) (trace (snd (fromGenius env mf w)))"
  using assms
  by (auto simp add: fromGenius_def saveLyricsToFile_def WriteLyrics_def emit_def Let_def
      split: option.splits sum.splits)

lemma fetchLyrics_fetch_trace_prefix:
  "prefix (trace (snd (FetchFromGenius env song w)))
     (trace (snd (fetchLyrics_fetch env song resp w)))"
  by (auto simp add: fetchLyrics_fetch_def ds_Put_def emit_def Let_def
      split: prod.splits sum.splits option.splits)

text \<open>
  C10. In both flows, when reading the tags of the file fails the file is handled as one
  without stored data. It is not counted as skipped, and the next call is the provider's:
  the request to the metrics service (with a key, an artist and a title), the run of the
  lyrics script (when it is available, with an artist and a title). The outcome is the
  provider's and the writes': when the service answers with the data and the three tag
  writes succeed the file is fetched, when it answers 404 the file is failed after that
  request; when the script prints lyrics and the \<open>Put\<close> succeeds the file is fetched,
  when the script fails the file is failed after that run. The read error alone never
  makes a file failed.
\<close>

theorem read_error_goes_to_fetch:
  assumes "taglib_Read env (trace w) (AbsolutePath env song) = None"
  shows "processSong env song w =
           processSong_fetch env song (AbsolutePath env song)
             (emit (TaglibRead (AbsolutePath env song)) w)
       \<and> fetchLyrics_song env song resp w =
           fetchLyrics_fetch env song resp (emit (TaglibRead (AbsolutePath env song)) w)
       \<and> \<not> skipped (fst (processSong env song w))
       \<and> Skipped (fst (fetchLyrics_song env song resp w)) = Skipped resp
       \<and> (\<forall>data w1 w2.
             FetchTrackData env (Artist song) (Title song)
               (emit (TaglibRead (AbsolutePath env song)) w) = (Inr data, w1)
             \<and> writeTrackDataTags env (AbsolutePath env song) data w1 = (None, w2) \<longrightarrow>
             fst (processSong env song w) = \<lparr>fetched = True, failed = False, skipped = False\<rparr>)
       \<and> (\<forall>lyricsList w1 js.
             FetchFromGenius env song (emit (TaglibRead (AbsolutePath env song)) w)
               = (Inr lyricsList, w1)
             \<and> lyricsList \<noteq> [] \<and> json_Marshal env lyricsList = Some js
             \<and> \<not> ds_Put_err env (trace w1) (ID song) \<longrightarrow>
             fst (fetchLyrics_song env song resp w) = resp\<lparr>Fetched := Fetched resp + 1\<rparr>)
       \<and> (getAPIKey env \<noteq> [] \<and> Artist song \<noteq> [] \<and> Title song \<noteq> [] \<longrightarrow>
             prefix (trace w @ [TaglibRead (AbsolutePath env song),
                                HttpGet (Artist song) (Title song)])
               (trace (snd (processSong env song w))))
       \<and> (\<forall>data.
             getAPIKey env \<noteq> [] \<and> Artist song \<noteq> [] \<and> Title song \<noteq> []
             \<and> client_Do env (trace w @ [TaglibRead (AbsolutePath env song)])
                   (Artist song) (Title song) = Response 200 (Some data)
             \<and> taglib_WriteTag env
                   (trace w @ [TaglibRead (AbsolutePath env song),
                               HttpGet (Artist song) (Title song)])
                   (AbsolutePath env song) ''ENERGYVAL'' (Sprintf_d (EnergyVal data)) = None
             \<and> taglib_WriteTag env
                   (trace w @ [TaglibRead (AbsolutePath env song),
                               HttpGet (Artist song) (Title song),
                               TaglibWriteTag (AbsolutePath env song) ''ENERGYVAL''
                                 (Sprintf_d (EnergyVal data))])
                   (AbsolutePath env song) ''HAPPINESS'' (Sprintf_d (Happiness data)) = None
             \<and> taglib_WriteTag env
                   (trace w @ [TaglibRead (AbsolutePath env song),
                               HttpGet (Artist song) (Title song),
                               TaglibWriteTag (AbsolutePath env song) ''ENERGYVAL''
                                 (Sprintf_d (EnergyVal data)),
                               TaglibWriteTag (AbsolutePath env song) ''HAPPINESS''
                                 (Sprintf_d (Happiness data))])
                   (AbsolutePath env song) ''INSTRUMENTALNESS''
                   (Sprintf_d (Instrumentalness data)) = None \<longrightarrow>
             fst (processSong env song w) = \<lparr>fetched = True, failed = False, skipped = False\<rparr>
             \<and> prefix (trace w @ [TaglibRead (AbsolutePath env song),
                                  HttpGet (Artist song) (Title song),
                                  TaglibWriteTag (AbsolutePath env song) ''ENERGYVAL''
                                    (Sprintf_d (EnergyVal data)),
                                  TaglibWriteTag (AbsolutePath env song) ''HAPPINESS''
                                    (Sprintf_d (Happiness data)),
                                  TaglibWriteTag (AbsolutePath env song) ''INSTRUMENTALNESS''
                                    (Sprintf_d (Instrumentalness data))])
                 (trace (snd (processSong env song w))))
       \<and> (\<forall>body.
             getAPIKey env \<noteq> [] \<and> Artist song \<noteq> [] \<and> Title song \<noteq> []
             \<and> client_Do env (trace w @ [TaglibRead (AbsolutePath env song)])
                   (Artist song) (Title song) = Response 404 body \<longrightarrow>
             processSong env song w =
               (\<lparr>fetched = False, failed = True, skipped = False\<rparr>,
                w\<lparr>trace := trace w @ [TaglibRead (AbsolutePath env song),
                                      HttpGet (Artist song) (Title song)]\<rparr>))
       \<and> (\<not> geniusCmd_err env \<and> Artist song \<noteq> [] \<and> Title song \<noteq> [] \<longrightarrow>
             prefix (trace w @ [TaglibRead (AbsolutePath env song),
                                GeniusExec (Artist song) (Title song)])
               (trace (snd (fetchLyrics_song env song resp w))))
       \<and> (\<forall>output lyrics js.
             \<not> geniusCmd_err env \<and> Artist song \<noteq> [] \<and> Title song \<noteq> []
             \<and> cmd_Output env (trace w @ [TaglibRead (AbsolutePath env song)])
                   (Artist song) (Title song) = Some output
             \<and> strings_TrimSpace env output \<noteq> []
             \<and> model_ToLyrics env ''xxx'' (strings_TrimSpace env output) = Inr (Some lyrics)
             \<and> \<not> IsEmpty env lyrics
             \<and> json_Marshal env [lyrics] = Some js
             \<and> \<not> ds_Put_err env
                   (trace w @ [TaglibRead (AbsolutePath env song),
                               GeniusExec (Artist song) (Title song),
                               TaglibWriteLyrics (AbsolutePath env song) ''xxx''
                                 (strings_TrimSpace env output)])
                   (ID song) \<longrightarrow>
             fetchLyrics_song env song resp w =
               (resp\<lparr>Fetched := Fetched resp + 1\<rparr>,
                w\<lparr>trace := trace w @ [TaglibRead (AbsolutePath env song),
                                      GeniusExec (Artist song) (Title song),
                                      TaglibWriteLyrics (AbsolutePath env song) ''xxx''
                                        (strings_TrimSpace env output),
                                      DbPut (ID song)],
                  rows := put_row (song\<lparr>Lyrics := js\<rparr>) (rows w)\<rparr>))
       \<and> (\<not> geniusCmd_err env \<and> Artist song \<noteq> [] \<and> Title song \<noteq> []
             \<and> cmd_Output env (trace w @ [TaglibRead (AbsolutePath env song)])
                   (Artist song) (Title song) = None \<longrightarrow>
             fetchLyrics_song env song resp w =
               (resp\<lparr>Failed := Failed resp + 1\<rparr>,
                w\<lparr>trace := trace w @ [TaglibRead (AbsolutePath env song),
                                      GeniusExec (Artist song) (Title song)]\<rparr>))"
proof -
  let ?p = "AbsolutePath env song"
  let ?w = "emit (TaglibRead ?p) w"
  have tw: "trace ?w = trace w @ [TaglibRead ?p]"
    by (simp add: emit_def)
  from assms have a: "processSong env song w = processSong_fetch env song ?p ?w"
    by (simp add: processSong_def Read_def Let_def)
  from assms have b: "fetchLyrics_song env song resp w = fetchLyrics_fetch env song resp ?w"
    by (simp add: fetchLyrics_song_def Read_def Let_def)
  have c: "\<not> skipped (fst (processSong env song w))"
    by (simp add: a processSong_fetch_not_skipped)
  have d: "Skipped (fst (fetchLyrics_song env song resp w)) = Skipped resp"
    by (simp add: b fetchLyrics_fetch_not_skipped)
  have e: "\<forall>data w1 w2.
             FetchTrackData env (Artist song) (Title song) ?w = (Inr data, w1)
             \<and> writeTrackDataTags env ?p data w1 = (None, w2) \<longrightarrow>
             fst (processSong env song w) = \<lparr>fetched = True, failed = False, skipped = False\<rparr>"
    by (simp add: a processSong_fetch_def)
  have f: "\<forall>lyricsList w1 js.
             FetchFromGenius env song ?w = (Inr lyricsList, w1)
             \<and> lyricsList \<noteq> [] \<and> json_Marshal env lyricsList = Some js
             \<and> \<not> ds_Put_err env (trace w1) (ID song) \<longrightarrow>
             fst (fetchLyrics_song env song resp w) = resp\<lparr>Fetched := Fetched resp + 1\<rparr>"
    by (simp add: b fetchLyrics_fetch_def ds_Put_def Let_def)
  have g: "getAPIKey env \<noteq> [] \<and> Artist song \<noteq> [] \<and> Title song \<noteq> [] \<longrightarrow>
             prefix (trace w @ [TaglibRead ?p, HttpGet (Artist song) (Title song)])
               (trace (snd (processSong env song w)))"
  proof
    assume k: "getAPIKey env \<noteq> [] \<and> Artist song \<noteq> [] \<and> Title song \<noteq> []"
    then have "prefix (trace ?w @ [HttpGet (Artist song) (Title song)])
        (trace (snd (FetchTrackData env (Artist song) (Title song) ?w)))"
      by (intro FetchTrackData_first_request) simp_all
    with processSong_fetch_trace_prefix [of env song ?w ?p]
    have "prefix (trace ?w @ [HttpGet (Artist song) (Title song)])
        (trace (snd (processSong_fetch env song ?p ?w)))"
      by (blast intro: prefix_order.trans)
    then show "prefix (trace w @ [TaglibRead ?p, HttpGet (Artist song) (Title song)])
               (trace (snd (processSong env song w)))"
      by (simp add: a tw)
  qed
  have h: "\<forall>data.
             getAPIKey env \<noteq> [] \<and> Artist song \<noteq> [] \<and> Title song \<noteq> []
             \<and> client_Do env (trace w @ [TaglibRead ?p]) (Artist song) (Title song)
                 = Response 200 (Some data)
             \<and> taglib_WriteTag env
                   (trace w @ [TaglibRead ?p, HttpGet (Artist song) (Title song)])
                   ?p ''ENERGYVAL'' (Sprintf_d (EnergyVal data)) = None
             \<and> taglib_WriteTag env
                   (trace w @ [TaglibRead ?p, HttpGet (Artist song) (Title song),
                               TaglibWriteTag ?p ''ENERGYVAL'' (Sprintf_d (EnergyVal data))])
                   ?p ''HAPPINESS'' (Sprintf_d (Happiness data)) = None
             \<and> taglib_WriteTag env
                   (trace w @ [TaglibRead ?p, HttpGet (Artist song) (Title song),
                               TaglibWriteTag ?p ''ENERGYVAL'' (Sprintf_d (EnergyVal data)),
                               TaglibWriteTag ?p ''HAPPINESS'' (Sprintf_d (Happiness data))])
                   ?p ''INSTRUMENTALNESS'' (Sprintf_d (Instrumentalness data)) = None \<longrightarrow>
             fst (processSong env song w) = \<lparr>fetched = True, failed = False, skipped = False\<rparr>
             \<and> prefix (trace w @ [TaglibRead ?p, HttpGet (Artist song) (Title song),
                                  TaglibWriteTag ?p ''ENERGYVAL'' (Sprintf_d (EnergyVal data)),
                                  TaglibWriteTag ?p ''HAPPINESS'' (Sprintf_d (Happiness data)),
                                  TaglibWriteTag ?p ''INSTRUMENTALNESS''
                                    (Sprintf_d (Instrumentalness data))])
                 (trace (snd (processSong env song w)))"
  proof (intro allI impI, elim conjE)
    fix data
    assume k: "getAPIKey env \<noteq> []" "Artist song \<noteq> []" "Title song \<noteq> []"
      and r: "client_Do env (trace w @ [TaglibRead ?p]) (Artist song) (Title song)
                 = Response 200 (Some data)"
      and o: "taglib_WriteTag env
                   (trace w @ [TaglibRead ?p, HttpGet (Artist song) (Title song)])
                   ?p ''ENERGYVAL'' (Sprintf_d (EnergyVal data)) = None"
        "taglib_WriteTag env
                   (trace w @ [TaglibRead ?p, HttpGet (Artist song) (Title song),
                               TaglibWriteTag ?p ''ENERGYVAL'' (Sprintf_d (EnergyVal data))])
                   ?p ''HAPPINESS'' (Sprintf_d (Happiness data)) = None"
        "taglib_WriteTag env
                   (trace w @ [TaglibRead ?p, HttpGet (Artist song) (Title song),
                               TaglibWriteTag ?p ''ENERGYVAL'' (Sprintf_d (EnergyVal data)),
                               TaglibWriteTag ?p ''HAPPINESS'' (Sprintf_d (Happiness data))])
                   ?p ''INSTRUMENTALNESS'' (Sprintf_d (Instrumentalness data)) = None"
    from r have "client_Do env (trace ?w) (Artist song) (Title song) = Response 200 (Some data)"
      by (simp add: tw)
    from FetchTrackData_answer(1) [OF k this]
    have "FetchTrackData env (Artist song) (Title song) ?w =
        (Inr data, emit (HttpGet (Artist song) (Title song)) ?w)" .
    then have ft: "FetchTrackData env (Artist song) (Title song)
          (w\<lparr>trace := trace w @ [TaglibRead ?p]\<rparr>) =
        (Inr data, w\<lparr>trace := trace w @ [TaglibRead ?p, HttpGet (Artist song) (Title song)]\<rparr>)"
      by (simp add: emit_def)
    show "fst (processSong env song w) = \<lparr>fetched = True, failed = False, skipped = False\<rparr>
             \<and> prefix (trace w @ [TaglibRead ?p, HttpGet (Artist song) (Title song),
                                  TaglibWriteTag ?p ''ENERGYVAL'' (Sprintf_d (EnergyVal data)),
                                  TaglibWriteTag ?p ''HAPPINESS'' (Sprintf_d (Happiness data)),
                                  TaglibWriteTag ?p ''INSTRUMENTALNESS''
                                    (Sprintf_d (Instrumentalness data))])
                 (trace (snd (processSong env song w)))"
      using o
      by (simp add: a processSong_fetch_def ft writeTrackDataTags_def WriteTag_def emit_def)
  qed
  have i: "\<forall>body.
             getAPIKey env \<noteq> [] \<and> Artist song \<noteq> [] \<and> Title song \<noteq> []
             \<and> client_Do env (trace w @ [TaglibRead ?p]) (Artist song) (Title song)
                 = Response 404 body \<longrightarrow>
             processSong env song w =
               (\<lparr>fetched = False, failed = True, skipped = False\<rparr>,
                w\<lparr>trace := trace w @ [TaglibRead ?p, HttpGet (Artist song) (Title song)]\<rparr>)"
  proof (intro allI impI, elim conjE)
    fix body
    assume k: "getAPIKey env \<noteq> []" "Artist song \<noteq> []" "Title song \<noteq> []"
      and r: "client_Do env (trace w @ [TaglibRead ?p]) (Artist song) (Title song)
                 = Response 404 body"
    from r have "client_Do env (trace ?w) (Artist song) (Title song) = Response 404 body"
      by (simp add: tw)
    from FetchTrackData_answer(2) [OF k this]
    have "FetchTrackData env (Artist song) (Title song)
          (w\<lparr>trace := trace w @ [TaglibRead ?p]\<rparr>) =
        (Inl ErrTrackNotFound,
         w\<lparr>trace := trace w @ [TaglibRead ?p, HttpGet (Artist song) (Title song)]\<rparr>)"
      by (simp add: emit_def)
    then show "processSong env song w =
               (\<lparr>fetched = False, failed = True, skipped = False\<rparr>,
                w\<lparr>trace := trace w @ [TaglibRead ?p, HttpGet (Artist song) (Title song)]\<rparr>)"
      by (simp add: a processSong_fetch_def emit_def)
  qed
  have j: "\<not> geniusCmd_err env \<and> Artist song \<noteq> [] \<and> Title song \<noteq> [] \<longrightarrow>
             prefix (trace w @ [TaglibRead ?p, GeniusExec (Artist song) (Title song)])
               (trace (snd (fetchLyrics_song env song resp w)))"
  proof
    assume k: "\<not> geniusCmd_err env \<and> Artist song \<noteq> [] \<and> Title song \<noteq> []"
    then have "prefix (trace ?w @ [GeniusExec (Artist song) (Title song)])
        (trace (snd (fromGenius env song ?w)))"
      by (intro fromGenius_first_call) simp_all
    with fetchLyrics_fetch_trace_prefix [of env song ?w resp]
    have "prefix (trace ?w @ [GeniusExec (Artist song) (Title song)])
        (trace (snd (fetchLyrics_fetch env song resp ?w)))"
      unfolding FetchFromGenius_def by (blast intro: prefix_order.trans)
    then show "prefix (trace w @ [TaglibRead ?p, GeniusExec (Artist song) (Title song)])
               (trace (snd (fetchLyrics_song env song resp w)))"
      by (simp add: b tw)
  qed
  have l: "\<forall>output lyrics js.
             \<not> geniusCmd_err env \<and> Artist song \<noteq> [] \<and> Title song \<noteq> []
             \<and> cmd_Output env (trace w @ [TaglibRead ?p]) (Artist song) (Title song) = Some output
             \<and> strings_TrimSpace env output \<noteq> []
             \<and> model_ToLyrics env ''xxx'' (strings_TrimSpace env output) = Inr (Some lyrics)
             \<and> \<not> IsEmpty env lyrics
             \<and> json_Marshal env [lyrics] = Some js
             \<and> \<not> ds_Put_err env
                   (trace w @ [TaglibRead ?p, GeniusExec (Artist song) (Title song),
                               TaglibWriteLyrics ?p ''xxx'' (strings_TrimSpace env output)])
                   (ID song) \<longrightarrow>
             fetchLyrics_song env song resp w =
               (resp\<lparr>Fetched := Fetched resp + 1\<rparr>,
                w\<lparr>trace := trace w @ [TaglibRead ?p, GeniusExec (Artist song) (Title song),
                                      TaglibWriteLyrics ?p ''xxx'' (strings_TrimSpace env output),
                                      DbPut (ID song)],
                  rows := put_row (song\<lparr>Lyrics := js\<rparr>) (rows w)\<rparr>)"
    by (simp add: b fetchLyrics_fetch_def FetchFromGenius_def fromGenius_def saveLyricsToFile_def
        WriteLyrics_def ds_Put_def emit_def Let_def)
  have m: "\<not> geniusCmd_err env \<and> Artist song \<noteq> [] \<and> Title song \<noteq> []
             \<and> cmd_Output env (trace w @ [TaglibRead ?p]) (Artist song) (Title song) = None \<longrightarrow>
             fetchLyrics_song env song resp w =
               (resp\<lparr>Failed := Failed resp + 1\<rparr>,
                w\<lparr>trace := trace w @ [TaglibRead ?p, GeniusExec (Artist song) (Title song)]\<rparr>)"
    by (simp add: b fetchLyrics_fetch_def FetchFromGenius_def fromGenius_def emit_def Let_def)
  from a b c d e f g h i j l m show ?thesis by blast
qed

theorem read_error_goes_to_fetch_witness:
  "taglib_Read env_unreadable (trace world0) (AbsolutePath env_unreadable song0) = None
   \<and> processSong env_unreadable song0 world0 =
       processSong_fetch env_unreadable song0 ''/music/a.mp3''
         (world0\<lparr>trace := [TaglibRead ''/music/a.mp3'']\<rparr>)
   \<and> fst (processSong env_unreadable song0 world0) =
       \<lparr>fetched = True, failed = False, skipped = False\<rparr>
   \<and> fetchLyrics_song env_unreadable song0 resp0 world0 =
       fetchLyrics_fetch env_unreadable song0 resp0
         (world0\<lparr>trace := [TaglibRead ''/music/a.mp3'']\<rparr>)
   \<and> fst (fetchLyrics_song env_unreadable song0 resp0 world0) = resp0\<lparr>Fetched := 1\<rparr>
   \<and> prefix [TaglibRead ''/music/a.mp3'', HttpGet ''Artist'' ''Title'',
        TaglibWriteTag ''/music/a.mp3'' ''ENERGYVAL'' ''72'',
        TaglibWriteTag ''/music/a.mp3'' ''HAPPINESS'' ''40'',
        TaglibWriteTag ''/music/a.mp3'' ''INSTRUMENTALNESS'' ''3'']
       (trace (snd (processSong env_unreadable song0 world0)))
   \<and> fetchLyrics_song env_unreadable song0 resp0 world0 =
       (resp0\<lparr>Fetched := 1\<rparr>,
        world0\<lparr>trace := [TaglibRead ''/music/a.mp3'', GeniusExec ''Artist'' ''Title'',
            TaglibWriteLyrics ''/music/a.mp3'' ''xxx'' ''la la'', DbPut ''s1''],
          rows := [song0\<lparr>Lyrics := ''la la''\<rparr>]\<rparr>)
   \<and> taglib_Read env_unreadable_404 (trace world0) (AbsolutePath env_unreadable_404 song0) = None
   \<and> processSong env_unreadable_404 song0 world0 =
       (\<lparr>fetched = False, failed = True, skipped = False\<rparr>,
        world0\<lparr>trace := [TaglibRead ''/music/a.mp3'', HttpGet ''Artist'' ''Title'']\<rparr>)"
proof -
  let ?p = "AbsolutePath env_unreadable song0"
  let ?d = "\<lparr>EnergyVal = 72, Happiness = 40, Instrumentalness = 3\<rparr>"
  have r: "taglib_Read env_unreadable (trace world0) ?p = None"
    by (simp add: env_unreadable_def)
  have r4: "taglib_Read env_unreadable_404 (trace world0) (AbsolutePath env_unreadable_404 song0) = None"
    by (simp add: env_unreadable_404_def env_unreadable_def)
  note T = read_error_goes_to_fetch [OF r, of resp0]
  note T4 = read_error_goes_to_fetch [OF r4, of resp0]
  have path: "?p = ''/music/a.mp3''"
    "AbsolutePath env_unreadable_404 song0 = ''/music/a.mp3''"
    "emit (TaglibRead ''/music/a.mp3'') world0 = world0\<lparr>trace := [TaglibRead ''/music/a.mp3'']\<rparr>"
    "Artist song0 = ''Artist''" "Title song0 = ''Title''" "ID song0 = ''s1''"
    "trace world0 = []" "rows world0 = [song0]"
    by (simp_all add: env_unreadable_404_def env_unreadable_def env0_def song0_def emit_def
        world0_def)
  have k: "getAPIKey env_unreadable \<noteq> [] \<and> Artist song0 \<noteq> [] \<and> Title song0 \<noteq> []"
    "getAPIKey env_unreadable_404 \<noteq> [] \<and> Artist song0 \<noteq> [] \<and> Title song0 \<noteq> []"
    "\<not> geniusCmd_err env_unreadable \<and> Artist song0 \<noteq> [] \<and> Title song0 \<noteq> []"
    by (simp_all add: env_unreadable_404_def env_unreadable_def env0_def song0_def)
  have cd: "client_Do env_unreadable (trace world0 @ [TaglibRead ?p]) (Artist song0) (Title song0)
      = Response 200 (Some ?d)"
    by (simp add: env_unreadable_def env0_def)
  have cd4: "client_Do env_unreadable_404
      (trace world0 @ [TaglibRead (AbsolutePath env_unreadable_404 song0)])
      (Artist song0) (Title song0) = Response 404 None"
    by (simp add: env_unreadable_404_def)
  have o: "\<And>h p n v. taglib_WriteTag env_unreadable h p n v = None"
    by (simp add: env_unreadable_def env0_def)
  have ly: "cmd_Output env_unreadable (trace world0 @ [TaglibRead ?p]) (Artist song0) (Title song0)
      = Some ''la la''"
    "strings_TrimSpace env_unreadable ''la la'' \<noteq> []"
    "model_ToLyrics env_unreadable ''xxx'' (strings_TrimSpace env_unreadable ''la la'')
      = Inr (Some ''la la'')"
    "\<not> IsEmpty env_unreadable ''la la''"
    "json_Marshal env_unreadable [''la la''] = Some ''la la''"
    "\<And>h i. \<not> ds_Put_err env_unreadable h i"
    "strings_TrimSpace env_unreadable ''la la'' = ''la la''"
    by (simp_all add: env_unreadable_def env0_def)
  from T have a: "processSong env_unreadable song0 world0 =
       processSong_fetch env_unreadable song0 ''/music/a.mp3''
         (world0\<lparr>trace := [TaglibRead ''/music/a.mp3'']\<rparr>)"
    and b: "fetchLyrics_song env_unreadable song0 resp0 world0 =
       fetchLyrics_fetch env_unreadable song0 resp0
         (world0\<lparr>trace := [TaglibRead ''/music/a.mp3'']\<rparr>)"
    by (simp_all add: path)
  from T k(1) cd o
  have "fst (processSong env_unreadable song0 world0) = \<lparr>fetched = True, failed = False, skipped = False\<rparr>
      \<and> prefix (trace world0 @ [TaglibRead ?p, HttpGet (Artist song0) (Title song0),
            TaglibWriteTag ?p ''ENERGYVAL'' (Sprintf_d (EnergyVal ?d)),
            TaglibWriteTag ?p ''HAPPINESS'' (Sprintf_d (Happiness ?d)),
            TaglibWriteTag ?p ''INSTRUMENTALNESS'' (Sprintf_d (Instrumentalness ?d))])
          (trace (snd (processSong env_unreadable song0 world0)))"
    by blast
  then have c: "fst (processSong env_unreadable song0 world0) =
        \<lparr>fetched = True, failed = False, skipped = False\<rparr>"
    and c': "prefix [TaglibRead ''/music/a.mp3'', HttpGet ''Artist'' ''Title'',
        TaglibWriteTag ''/music/a.mp3'' ''ENERGYVAL'' ''72'',
        TaglibWriteTag ''/music/a.mp3'' ''HAPPINESS'' ''40'',
        TaglibWriteTag ''/music/a.mp3'' ''INSTRUMENTALNESS'' ''3'']
       (trace (snd (processSong env_unreadable song0 world0)))"
    by (simp_all add: path Sprintf_d_examples)
  from T k(3) ly(1-6)
  have "fetchLyrics_song env_unreadable song0 resp0 world0 =
       (resp0\<lparr>Fetched := Fetched resp0 + 1\<rparr>,
        world0\<lparr>trace := trace world0 @ [TaglibRead ?p, GeniusExec (Artist song0) (Title song0),
            TaglibWriteLyrics ?p ''xxx'' (strings_TrimSpace env_unreadable ''la la''),
            DbPut (ID song0)],
          rows := put_row (song0\<lparr>Lyrics := ''la la''\<rparr>) (rows world0)\<rparr>)"
    by blast
  then have d: "fetchLyrics_song env_unreadable song0 resp0 world0 =
       (resp0\<lparr>Fetched := 1\<rparr>,
        world0\<lparr>trace := [TaglibRead ''/music/a.mp3'', GeniusExec ''Artist'' ''Title'',
            TaglibWriteLyrics ''/music/a.mp3'' ''xxx'' ''la la'', DbPut ''s1''],
          rows := [song0\<lparr>Lyrics := ''la la''\<rparr>]\<rparr>)"
    by (simp add: path ly(7) resp0_def)
  then have d': "fst (fetchLyrics_song env_unreadable song0 resp0 world0) = resp0\<lparr>Fetched := 1\<rparr>"
    by simp
  from T4 k(2) cd4
  have "processSong env_unreadable_404 song0 world0 =
       (\<lparr>fetched = False, failed = True, skipped = False\<rparr>,
        world0\<lparr>trace := trace world0 @ [TaglibRead (AbsolutePath env_unreadable_404 song0),
            HttpGet (Artist song0) (Title song0)]\<rparr>)"
    by blast
  then have e: "processSong env_unreadable_404 song0 world0 =
       (\<lparr>fetched = False, failed = True, skipped = False\<rparr>,
        world0\<lparr>trace := [TaglibRead ''/music/a.mp3'', HttpGet ''Artist'' ''Title'']\<rparr>)"
    by (simp add: path)
  from r a c b d' c' d r4 e show ?thesis by blast
qed

end
